theory Spec2Isabelle
  imports Complex_Main
begin

section \<open>Data model\<close>

text \<open>
  The two scripts (the point tool \<^verbatim>\<open>lstTootl.js\<close> and the area tool) are written
  against a hosted raster platform. Its objects are modelled as follows.

  \<^item> A pixel position is a pair of grid coordinates.
  \<^item> A band gives every pixel a value or nothing; nothing (\<open>None\<close>) is a masked
    (invalid) pixel. Every band carries its own mask. Integer bands (the raw
    digital numbers and the quality-assurance flags) and floating bands are told
    apart, because bitwise operators accept integer bands only.
  \<^item> Numbers of floating type are double-precision binary numbers. A double is
    modelled by the real it denotes, and the arithmetic of the image operators
    rounds every exact result to the nearest double, ties to the even one
    (\<open>double_of\<close> below). Results beyond the largest finite double, where the
    platform gives an infinity, are outside the model; the digital numbers of
    the thermal band are 16-bit. The reducers that aggregate a list of numbers
    are modelled over the reals they denote.
  \<^item> An image is a list of named bands with the metadata the scripts read:
    the acquisition time (milliseconds since 1970-01-01 UTC), the reported
    cloud cover (a percentage) and the footprint.
\<close>

type_synonym pix = "int \<times> int"

datatype band = IntBand "pix \<Rightarrow> int option" | FloatBand "pix \<Rightarrow> real option"

record 'f raster_image =
  bands :: "(string \<times> band) list"
  time_start :: int
  cloud_cover :: real
  footprint :: 'f

datatype error = NoSuchBand string | NotInteger string

definition bindE :: "error + 'a \<Rightarrow> ('a \<Rightarrow> error + 'b) \<Rightarrow> error + 'b" where
  "bindE m f = (case m of Inl e \<Rightarrow> Inl e | Inr x \<Rightarrow> f x)"

text \<open>The value of a pixel as a number, whatever the type of the band.\<close>

fun band_value :: "band \<Rightarrow> pix \<Rightarrow> real option" where
  "band_value (IntBand f) p = map_option real_of_int (f p)"
| "band_value (FloatBand f) p = f p"

definition valid_at :: "band \<Rightarrow> pix \<Rightarrow> bool" where
  "valid_at b p = (band_value b p \<noteq> None)"

definition band_names :: "'f raster_image \<Rightarrow> string list" where
  "band_names img = map fst (bands img)"

section \<open>Double-precision numbers\<close>

text \<open>
  A finite double is an integer multiple \<open>m * 2 ^ (e - 52)\<close> with
  \<open>\<bar>m\<bar> \<le> 2 ^ 53\<close> and an exponent \<open>e\<close> from -1022 to 1023. The exponent
  of a real \<open>x\<close> is the least \<open>e\<close> of that range with \<open>\<bar>x\<bar> < 2 ^ (e + 1)\<close>; below
  \<open>2 ^ (- 1022)\<close> it stays -1022 (the subnormal numbers). \<open>double_of x\<close> is the
  multiple of \<open>2 ^ (e - 52)\<close> nearest to \<open>x\<close>, and the even multiple when two
  are equally near. A decimal literal of the script denotes the double nearest
  to it.
\<close>

definition round_even :: "real \<Rightarrow> int" where
  "round_even y =
     (let f = \<lfloor>y\<rfloor>; d = y - real_of_int f
      in if d < 1 / 2 then f else if 1 / 2 < d then f + 1 else if even f then f else f + 1)"

definition min_exponent :: int where
  "min_exponent = - 1022"

definition max_exponent :: int where
  "max_exponent = 1023"

definition exponent :: "real \<Rightarrow> int" where
  "exponent x =
     (case find (\<lambda>e. \<bar>x\<bar> < 2 powi (e + 1)) [min_exponent .. max_exponent] of
        Some e \<Rightarrow> e
      | None \<Rightarrow> max_exponent)"

definition double_of :: "real \<Rightarrow> real" where
  "double_of x =
     (let ulp = 2 powi (exponent x - 52)
      in real_of_int (round_even (x / ulp)) * ulp)"

section \<open>Image operators of the platform\<close>

text \<open>
  \<open>select\<close> yields the one-band image of the given name and fails when the image
  has no such band. A one-band image is a named band.
\<close>

definition select :: "'f raster_image \<Rightarrow> string \<Rightarrow> error + (string \<times> band)" where
  "select img n =
     (case map_of (bands img) n of
        None \<Rightarrow> Inl (NoSuchBand n)
      | Some b \<Rightarrow> Inr (n, b))"

text \<open>Bitwise conjunction with a constant: integer bands only.\<close>

definition bitwiseAnd :: "string \<times> band \<Rightarrow> int \<Rightarrow> error + (string \<times> band)" where
  "bitwiseAnd nb k =
     (case snd nb of
        IntBand f \<Rightarrow> Inr (fst nb, IntBand (\<lambda>p. map_option (\<lambda>v. and v k) (f p)))
      | FloatBand f \<Rightarrow> Inl (NotInteger (fst nb)))"

text \<open>Comparison with a constant: 1 where equal, 0 elsewhere, masked where the input is.\<close>

definition eq :: "string \<times> band \<Rightarrow> real \<Rightarrow> string \<times> band" where
  "eq nb k =
     (fst nb, IntBand (\<lambda>p. map_option (\<lambda>v. if v = k then 1 else 0) (band_value (snd nb) p)))"

text \<open>
  Logical conjunction of two one-band images: 1 where both are non-zero, 0
  elsewhere, masked where either input is.
\<close>

definition and_img :: "string \<times> band \<Rightarrow> string \<times> band \<Rightarrow> string \<times> band" where
  "and_img a b =
     (fst a, IntBand (\<lambda>p.
        case (band_value (snd a) p, band_value (snd b) p) of
          (Some x, Some y) \<Rightarrow> Some (if x \<noteq> 0 \<and> y \<noteq> 0 then 1 else 0)
        | _ \<Rightarrow> None))"

text \<open>
  \<open>updateMask\<close> keeps a pixel of a band where the band had it and the one-band
  mask image is valid and non-zero there; names, order and metadata are kept.
\<close>

fun mask_band :: "(pix \<Rightarrow> bool) \<Rightarrow> band \<Rightarrow> band" where
  "mask_band keep (IntBand f) = IntBand (\<lambda>p. if keep p then f p else None)"
| "mask_band keep (FloatBand f) = FloatBand (\<lambda>p. if keep p then f p else None)"

definition mask_on :: "string \<times> band \<Rightarrow> pix \<Rightarrow> bool" where
  "mask_on m p = (case band_value (snd m) p of None \<Rightarrow> False | Some v \<Rightarrow> v \<noteq> 0)"

definition updateMask :: "'f raster_image \<Rightarrow> string \<times> band \<Rightarrow> 'f raster_image" where
  "updateMask img m =
     img\<lparr>bands := map (\<lambda>(n, b). (n, mask_band (mask_on m) b)) (bands img)\<rparr>"

text \<open>
  Arithmetic with a constant, pixel by pixel; the mask is kept. The constant is
  a number of the script, that is the double nearest to the literal, and the
  result of the operation on a pixel is rounded to a double.
\<close>

definition multiply :: "string \<times> band \<Rightarrow> real \<Rightarrow> string \<times> band" where
  "multiply nb c =
     (fst nb, FloatBand (\<lambda>p. map_option (\<lambda>v. double_of (v * double_of c)) (band_value (snd nb) p)))"

definition add :: "string \<times> band \<Rightarrow> real \<Rightarrow> string \<times> band" where
  "add nb c =
     (fst nb, FloatBand (\<lambda>p. map_option (\<lambda>v. double_of (v + double_of c)) (band_value (snd nb) p)))"

definition subtract :: "string \<times> band \<Rightarrow> real \<Rightarrow> string \<times> band" where
  "subtract nb c =
     (fst nb, FloatBand (\<lambda>p. map_option (\<lambda>v. double_of (v - double_of c)) (band_value (snd nb) p)))"

definition rename :: "string \<times> band \<Rightarrow> string \<Rightarrow> string \<times> band" where
  "rename nb n = (n, snd nb)"

text \<open>
  \<open>addBands\<close> (without overwriting) appends the band. When the image already has
  a band of that name the new band gets a numerical suffix: \<open>foo_1\<close> unless it
  exists, then \<open>foo_2\<close>, and so on.
\<close>

definition digit :: "nat \<Rightarrow> char" where
  "digit d = ''0123456789'' ! (d mod 10)"

fun digits :: "nat \<Rightarrow> string" where
  "digits n = (if n < 10 then [digit n] else digits (n div 10) @ [digit n])"

definition suffixed :: "string \<Rightarrow> nat \<Rightarrow> string" where
  "suffixed n k = n @ ''_'' @ digits k"

definition fresh_name :: "string list \<Rightarrow> string \<Rightarrow> string" where
  "fresh_name names n =
     (if n \<notin> set names then n
      else case find (\<lambda>k. suffixed n k \<notin> set names) [1 ..< length names + 2] of
             Some k \<Rightarrow> suffixed n k
           | None \<Rightarrow> n)"

definition addBands :: "'f raster_image \<Rightarrow> string \<times> band \<Rightarrow> 'f raster_image" where
  "addBands img nb =
     img\<lparr>bands := bands img @ [(fresh_name (band_names img) (fst nb), snd nb)]\<rparr>"

section \<open>Cloud mask and surface temperature\<close>

text \<open>
  \<^verbatim>\<open>maskClouds\<close> and \<^verbatim>\<open>calculateLST\<close> are the same in both scripts. The
  shifts \<^verbatim>\<open>1 << 3\<close>, \<^verbatim>\<open>1 << 4\<close> and \<^verbatim>\<open>1 << 2\<close> are far from the
  32-bit limit of the script language.
\<close>

definition maskClouds :: "'f raster_image \<Rightarrow> error + 'f raster_image" where
  "maskClouds img =
     bindE (select img ''QA_PIXEL'') (\<lambda>qa.
     bindE (bitwiseAnd qa (push_bit 3 1)) (\<lambda>shadow.
     bindE (bitwiseAnd qa (push_bit 4 1)) (\<lambda>cloud.
     bindE (bitwiseAnd qa (push_bit 2 1)) (\<lambda>cirrus.
     Inr (updateMask img
            (and_img (and_img (eq shadow 0) (eq cloud 0)) (eq cirrus 0)))))))"

definition calculateLST :: "'f raster_image \<Rightarrow> error + 'f raster_image" where
  "calculateLST img =
     bindE (select img ''ST_B10'') (\<lambda>st.
     Inr (addBands img
            (rename (subtract (add (multiply st 0.00341802) 149.0) 273.15) ''LST'')))"

section \<open>Dates\<close>

text \<open>
  The platform reads an acquisition time as a calendar date in UTC. The civil
  date of a day number (days since 1970-01-01, proleptic Gregorian calendar) is
  computed from 400-year eras; \<open>div\<close> and \<open>mod\<close> round downwards.
\<close>

definition millis_per_day :: int where
  "millis_per_day = 86400000"

definition civil_from_days :: "int \<Rightarrow> int \<times> int \<times> int" where
  "civil_from_days z0 =
     (let z = z0 + 719468;
          era = z div 146097;
          doe = z mod 146097;
          yoe = (doe - doe div 1460 + doe div 36524 - doe div 146096) div 365;
          doy = doe - (365 * yoe + yoe div 4 - yoe div 100);
          mp = (5 * doy + 2) div 153;
          d = doy - (153 * mp + 2) div 5 + 1;
          m = (if mp < 10 then mp + 3 else mp - 9);
          y = yoe + era * 400 + (if m \<le> 2 then 1 else 0)
      in (y, m, d))"

definition date_year :: "int \<Rightarrow> int" where
  "date_year t = fst (civil_from_days (t div millis_per_day))"

definition date_month :: "int \<Rightarrow> int" where
  "date_month t = fst (snd (civil_from_days (t div millis_per_day)))"

definition date_day :: "int \<Rightarrow> int" where
  "date_day t = snd (snd (civil_from_days (t div millis_per_day)))"

definition leap_year :: "int \<Rightarrow> bool" where
  "leap_year y = (y mod 4 = 0 \<and> (y mod 100 \<noteq> 0 \<or> y mod 400 = 0))"

definition days_before_month :: "int \<Rightarrow> int" where
  "days_before_month m =
     [0, 31, 59, 90, 120, 151, 181, 212, 243, 273, 304, 334] ! nat ((m - 1) mod 12)"

text \<open>\<^verbatim>\<open>getRelative('day', 'year')\<close>: the day of the year, counted from 0.\<close>

definition date_doy :: "int \<Rightarrow> int" where
  "date_doy t =
     (let y = date_year t; m = date_month t; d = date_day t
      in days_before_month m + (if leap_year y \<and> 2 < m then 1 else 0) + (d - 1))"

definition pad :: "nat \<Rightarrow> int \<Rightarrow> string" where
  "pad w n = (let s = digits (nat n) in replicate (w - length s) (CHR ''0'') @ s)"

text \<open>\<^verbatim>\<open>format('YYYY-MM-dd')\<close>.\<close>

definition format_date :: "int \<Rightarrow> string" where
  "format_date t = pad 4 (date_year t) @ ''-'' @ pad 2 (date_month t) @ ''-'' @ pad 2 (date_day t)"

text \<open>
  The shape of a calendar date in ISO 8601: four digits, a dash, two digits, a
  dash, two digits.
\<close>

definition iso_date :: "string \<Rightarrow> bool" where
  "iso_date s =
     (length s = 10 \<and> s ! 4 = CHR ''-'' \<and> s ! 7 = CHR ''-'' \<and>
      list_all (\<lambda>i. s ! i \<in> set ''0123456789'') [0, 1, 2, 3, 5, 6, 8, 9])"

section \<open>Features, lists and reducers of the platform\<close>

text \<open>
  A property value is null, a number or a string. A feature without geometry is
  its dictionary of properties, as the object literal of the script lists them;
  reading a key that is absent gives null.
\<close>

datatype val = Null | Num real | Str string

type_synonym feature = "(string \<times> val) list"

definition get :: "feature \<Rightarrow> string \<Rightarrow> val" where
  "get f k = (case map_of f k of None \<Rightarrow> Null | Some v \<Rightarrow> v)"

fun val_of :: "real option \<Rightarrow> val" where
  "val_of None = Null"
| "val_of (Some x) = Num x"

fun mapE :: "('a \<Rightarrow> error + 'b) \<Rightarrow> 'a list \<Rightarrow> error + 'b list" where
  "mapE f [] = Inr []"
| "mapE f (x # xs) = bindE (f x) (\<lambda>y. bindE (mapE f xs) (\<lambda>ys. Inr (y # ys)))"

definition merge :: "'a list \<Rightarrow> 'a list \<Rightarrow> 'a list" where
  "merge a b = a @ b"

definition filter_eq :: "string \<Rightarrow> val \<Rightarrow> feature list \<Rightarrow> feature list" where
  "filter_eq k v fs = filter (\<lambda>f. get f k = v) fs"

definition filter_neq :: "string \<Rightarrow> val \<Rightarrow> feature list \<Rightarrow> feature list" where
  "filter_neq k v fs = filter (\<lambda>f. get f k \<noteq> v) fs"

definition filter_inList :: "string \<Rightarrow> val list \<Rightarrow> feature list \<Rightarrow> feature list" where
  "filter_inList k vs fs = filter (\<lambda>f. get f k \<in> set vs) fs"

text \<open>
  \<open>aggregate_array\<close> lists the values of one property over a collection. Null
  values are kept here; both scripts remove them from the list right away
  (\<^verbatim>\<open>removeAll([null])\<close>), so a platform that drops them earlier gives the
  same lists.
\<close>

definition aggregate_array :: "feature list \<Rightarrow> string \<Rightarrow> val list" where
  "aggregate_array fs k = map (\<lambda>f. get f k) fs"

definition removeAll_list :: "val list \<Rightarrow> val list \<Rightarrow> val list" where
  "removeAll_list xs other = filter (\<lambda>x. x \<notin> set other) xs"

definition sequence :: "nat \<Rightarrow> nat \<Rightarrow> val list" where
  "sequence a b = map (\<lambda>i. Num (real i)) [a ..< Suc b]"

text \<open>
  Reducers take their numeric inputs one at a time and keep running totals. With
  no input the result is null (\<open>None\<close>), never a quotient by zero. The standard
  deviation is that of the population. The median of an even number of inputs is
  the mean of the two middle ones.
\<close>

definition numbers :: "val list \<Rightarrow> real list" where
  "numbers vs = List.map_filter (\<lambda>v. case v of Num x \<Rightarrow> Some x | _ \<Rightarrow> None) vs"

definition mean_reducer :: "real list \<Rightarrow> real option" where
  "mean_reducer xs =
     (case fold (\<lambda>x (n, s). (Suc n, s + x)) xs (0, 0) of
        (n, s) \<Rightarrow> if n = 0 then None else Some (s / real n))"

definition min_reducer :: "real list \<Rightarrow> real option" where
  "min_reducer xs =
     fold (\<lambda>x m. case m of None \<Rightarrow> Some x | Some y \<Rightarrow> Some (min y x)) xs None"

definition max_reducer :: "real list \<Rightarrow> real option" where
  "max_reducer xs =
     fold (\<lambda>x m. case m of None \<Rightarrow> Some x | Some y \<Rightarrow> Some (max y x)) xs None"

definition stdDev_reducer :: "real list \<Rightarrow> real option" where
  "stdDev_reducer xs =
     (case fold (\<lambda>x (n, s, q). (Suc n, s + x, q + x * x)) xs (0, 0, 0) of
        (n, s, q) \<Rightarrow>
          if n = 0 then None else Some (sqrt (q / real n - (s / real n) * (s / real n))))"

definition median_reducer :: "real list \<Rightarrow> real option" where
  "median_reducer xs =
     (let ys = sort xs; n = length ys
      in if n = 0 then None
         else if odd n then Some (ys ! (n div 2))
         else Some ((ys ! (n div 2 - 1) + ys ! (n div 2)) / 2))"

definition reduce :: "val list \<Rightarrow> (real list \<Rightarrow> real option) \<Rightarrow> val" where
  "reduce vs reducer = val_of (reducer (numbers vs))"

definition size_of :: "val list \<Rightarrow> val" where
  "size_of vs = Num (real (length vs))"

text \<open>\<open>aggregate_mean\<close>: the mean of the non-null values of one property.\<close>

definition aggregate_mean :: "feature list \<Rightarrow> string \<Rightarrow> val" where
  "aggregate_mean fs k = reduce (aggregate_array fs k) mean_reducer"

text \<open>
  What the scripts take from the platform without computing it: the catalogue
  of scenes of a collection, whether a footprint meets a geometry, the pixels of
  a region sampled at a scale (the valid ones among them enter a regional
  statistic, each with weight 1 here) and the buffer of a geometry. The pixel
  budget and the best-effort flag of a regional statistic decide which pixels
  the platform samples; \<open>region_pixels\<close> stands for its answer.
\<close>

record ('g, 'f) platform =
  catalog :: "string \<Rightarrow> 'f raster_image list"
  intersects :: "'g \<Rightarrow> 'f \<Rightarrow> bool"
  region_pixels :: "'g \<Rightarrow> nat \<Rightarrow> pix list"
  buffer :: "'g \<Rightarrow> nat \<Rightarrow> 'g"

definition filterBounds :: "('g, 'f) platform \<Rightarrow> 'g \<Rightarrow> 'f raster_image list \<Rightarrow> 'f raster_image list" where
  "filterBounds P g coll = filter (\<lambda>img. intersects P g (footprint img)) coll"

definition filterDate :: "int \<Rightarrow> int \<Rightarrow> 'f raster_image list \<Rightarrow> 'f raster_image list" where
  "filterDate s e coll = filter (\<lambda>img. s \<le> time_start img \<and> time_start img < e) coll"

definition filter_lt_CLOUD_COVER :: "real \<Rightarrow> 'f raster_image list \<Rightarrow> 'f raster_image list" where
  "filter_lt_CLOUD_COVER thr coll = filter (\<lambda>img. cloud_cover img < thr) coll"

definition region_values :: "('g, 'f) platform \<Rightarrow> string \<times> band \<Rightarrow> 'g \<Rightarrow> nat \<Rightarrow> real list" where
  "region_values P nb g sc = List.map_filter (band_value (snd nb)) (region_pixels P g sc)"

text \<open>
  \<open>reduceRegion\<close> with the mean alone names its output after the band; with
  the mean, the standard deviation and the count combined, after band and
  reducer. The count of an empty region is 0; its mean is null.
\<close>

definition reduceRegion_mean :: "('g, 'f) platform \<Rightarrow> string \<times> band \<Rightarrow> 'g \<Rightarrow> nat \<Rightarrow> feature" where
  "reduceRegion_mean P nb g sc = [(fst nb, val_of (mean_reducer (region_values P nb g sc)))]"

definition reduceRegion_mean_stdDev_count ::
    "('g, 'f) platform \<Rightarrow> string \<times> band \<Rightarrow> 'g \<Rightarrow> nat \<Rightarrow> feature" where
  "reduceRegion_mean_stdDev_count P nb g sc =
     (let xs = region_values P nb g sc
      in [(fst nb @ ''_mean'', val_of (mean_reducer xs)),
          (fst nb @ ''_stdDev'', val_of (stdDev_reducer xs)),
          (fst nb @ ''_count'', Num (real (length xs)))])"

section \<open>Configuration\<close>

text \<open>
  \<^verbatim>\<open>startDate = '2014-01-01'\<close> and \<^verbatim>\<open>endDate = '2024-01-01'\<close> are read by the
  platform as the instants at 00:00 UTC of these days.
\<close>

definition startDate :: int where
  "startDate = 16071 * millis_per_day"

definition endDate :: int where
  "endDate = 19723 * millis_per_day"

definition bufferSize :: nat where
  "bufferSize = 100"

definition scale :: nat where
  "scale = 30"

section \<open>Building the collection\<close>

text \<open>
  Both scripts load each of the two collections through the same chain:
  \<^verbatim>\<open>filterBounds\<close>, \<^verbatim>\<open>filterDate\<close>, the filter on \<^verbatim>\<open>CLOUD_COVER\<close>, then
  \<^verbatim>\<open>map(maskClouds)\<close> and \<^verbatim>\<open>map(calculateLST)\<close>. They differ in the threshold
  (30 for the area, 20 for the point). A failure on one image fails the whole
  collection.
\<close>

definition landsat ::
    "('g, 'f) platform \<Rightarrow> string \<Rightarrow> 'g \<Rightarrow> int \<Rightarrow> int \<Rightarrow> real \<Rightarrow> error + 'f raster_image list" where
  "landsat P cid g s e thr =
     bindE (mapE maskClouds
              (filter_lt_CLOUD_COVER thr (filterDate s e (filterBounds P g (catalog P cid)))))
           (mapE calculateLST)"

definition allLandsat ::
    "('g, 'f) platform \<Rightarrow> 'g \<Rightarrow> int \<Rightarrow> int \<Rightarrow> real \<Rightarrow> error + 'f raster_image list" where
  "allLandsat P g s e thr =
     bindE (landsat P ''LANDSAT/LC08/C02/T1_L2'' g s e thr) (\<lambda>landsat8.
     bindE (landsat P ''LANDSAT/LC09/C02/T1_L2'' g s e thr) (\<lambda>landsat9.
     Inr (merge landsat8 landsat9)))"

definition allLandsat_area :: "('g, 'f) platform \<Rightarrow> 'g \<Rightarrow> error + 'f raster_image list" where
  "allLandsat_area P geometry = allLandsat P geometry startDate endDate 30"

definition allLandsat_point :: "('g, 'f) platform \<Rightarrow> 'g \<Rightarrow> error + 'f raster_image list" where
  "allLandsat_point P point = allLandsat P point startDate endDate 20"

section \<open>The area tool\<close>

definition extractLST_area :: "('g, 'f) platform \<Rightarrow> 'g \<Rightarrow> 'f raster_image \<Rightarrow> error + feature" where
  "extractLST_area P geometry img =
     bindE (select img ''LST'') (\<lambda>lst.
     let lstStats = reduceRegion_mean_stdDev_count P lst geometry scale
     in Inr [(''date'', Str (format_date (time_start img))),
             (''LST_mean'', get lstStats ''LST_mean''),
             (''LST_stdDev'', get lstStats ''LST_stdDev''),
             (''LST_count'', get lstStats ''LST_count''),
             (''year'', Num (real_of_int (date_year (time_start img)))),
             (''month'', Num (real_of_int (date_month (time_start img)))),
             (''day'', Num (real_of_int (date_day (time_start img)))),
             (''doy'', Num (real_of_int (date_doy (time_start img))))])"

definition lstTimeSeries_area :: "('g, 'f) platform \<Rightarrow> 'g \<Rightarrow> error + feature list" where
  "lstTimeSeries_area P geometry =
     bindE (allLandsat_area P geometry) (mapE (extractLST_area P geometry))"

definition validTimeSeries :: "feature list \<Rightarrow> feature list" where
  "validTimeSeries lstTimeSeries = filter_neq ''LST_mean'' Null lstTimeSeries"

definition stats_area :: "feature list \<Rightarrow> feature" where
  "stats_area valid =
     (let lstValues = aggregate_array valid ''LST_mean'';
          validLST = removeAll_list lstValues [Null]
      in [(''count'', size_of validLST),
          (''mean'', reduce validLST mean_reducer),
          (''min'', reduce validLST min_reducer),
          (''max'', reduce validLST max_reducer),
          (''std'', reduce validLST stdDev_reducer),
          (''median'', reduce validLST median_reducer)])"

definition months :: "val list" where
  "months = sequence 1 12"

definition monthData :: "feature list \<Rightarrow> val \<Rightarrow> feature list" where
  "monthData valid month = filter_eq ''month'' month valid"

definition monthlyStats :: "feature list \<Rightarrow> feature list" where
  "monthlyStats valid =
     map (\<lambda>month.
       let monthLST = aggregate_array (monthData valid month) ''LST_mean'';
           validMonthLST = removeAll_list monthLST [Null]
       in [(''month'', month),
           (''count'', size_of validMonthLST),
           (''mean_LST'', reduce validMonthLST mean_reducer),
           (''min_LST'', reduce validMonthLST min_reducer),
           (''max_LST'', reduce validMonthLST max_reducer)]) months"

definition years :: "val list" where
  "years = sequence 2014 2023"

definition yearData :: "feature list \<Rightarrow> val \<Rightarrow> feature list" where
  "yearData valid year = filter_eq ''year'' year valid"

definition yearlyLST_area :: "feature list \<Rightarrow> feature list" where
  "yearlyLST_area valid =
     map (\<lambda>year.
       let yearLST = aggregate_array (yearData valid year) ''LST_mean'';
           validYearLST = removeAll_list yearLST [Null]
       in [(''year'', year),
           (''count'', size_of validYearLST),
           (''yearly_mean_LST'', reduce validYearLST mean_reducer),
           (''yearly_min_LST'', reduce validYearLST min_reducer),
           (''yearly_max_LST'', reduce validYearLST max_reducer)]) years"

definition seasons :: "(string \<times> val list) list" where
  "seasons =
     [(''Winter (Dec-Feb)'', [Num 12, Num 1, Num 2]),
      (''Spring (Mar-May)'', [Num 3, Num 4, Num 5]),
      (''Monsoon (Jun-Aug)'', [Num 6, Num 7, Num 8]),
      (''Post-Monsoon (Sep-Nov)'', [Num 9, Num 10, Num 11])]"

definition seasonData :: "feature list \<Rightarrow> string \<times> val list \<Rightarrow> feature list" where
  "seasonData valid season = filter_inList ''month'' (snd season) valid"

text \<open>The seasonal figures are printed, one block a season; a block is kept as a dictionary.\<close>

definition seasonalStats :: "feature list \<Rightarrow> feature list" where
  "seasonalStats valid =
     map (\<lambda>season.
       let seasonLST = aggregate_array (seasonData valid season) ''LST_mean'';
           validSeasonLST = removeAll_list seasonLST [Null]
       in [(''name'', Str (fst season)),
           (''Count'', size_of validSeasonLST),
           (''Mean LST'', reduce validSeasonLST mean_reducer),
           (''Min LST'', reduce validSeasonLST min_reducer),
           (''Max LST'', reduce validSeasonLST max_reducer)]) seasons"

record area_report =
  timeSeries :: "feature list"
  overall :: feature
  monthly :: "feature list"
  yearly :: "feature list"
  seasonal :: "feature list"

text \<open>
  \<^verbatim>\<open>analyzeLSTForArea\<close>, without the map layers and the charts: what it
  prints. The point tool below is kept in the same way.
\<close>

definition analyzeLSTForArea :: "('g, 'f) platform \<Rightarrow> 'g \<Rightarrow> error + area_report" where
  "analyzeLSTForArea P geometry =
     bindE (lstTimeSeries_area P geometry) (\<lambda>lstTimeSeries.
     let valid = validTimeSeries lstTimeSeries
     in Inr \<lparr>timeSeries = valid,
             overall = stats_area valid,
             monthly = monthlyStats valid,
             yearly = yearlyLST_area valid,
             seasonal = seasonalStats valid\<rparr>)"

section \<open>The point tool\<close>

definition extractLST_point :: "('g, 'f) platform \<Rightarrow> 'g \<Rightarrow> 'f raster_image \<Rightarrow> error + feature" where
  "extractLST_point P buf img =
     bindE (select img ''LST'') (\<lambda>lst.
     let meanLST = reduceRegion_mean P lst buf scale
     in Inr [(''date'', Str (format_date (time_start img))),
             (''LST'', get meanLST ''LST''),
             (''year'', Num (real_of_int (date_year (time_start img)))),
             (''month'', Num (real_of_int (date_month (time_start img)))),
             (''day'', Num (real_of_int (date_day (time_start img))))])"

definition lstTimeSeries_point :: "('g, 'f) platform \<Rightarrow> 'g \<Rightarrow> error + feature list" where
  "lstTimeSeries_point P point =
     bindE (allLandsat_point P point) (mapE (extractLST_point P (buffer P point bufferSize)))"

definition stats_point :: "feature list \<Rightarrow> feature" where
  "stats_point lstTimeSeries =
     (let lstValues = aggregate_array lstTimeSeries ''LST'';
          validLST = removeAll_list lstValues [Null]
      in [(''count'', size_of validLST),
          (''mean'', reduce validLST mean_reducer),
          (''min'', reduce validLST min_reducer),
          (''max'', reduce validLST max_reducer),
          (''std'', reduce validLST stdDev_reducer)])"

definition yearlyLST_point :: "feature list \<Rightarrow> feature list" where
  "yearlyLST_point lstTimeSeries =
     map (\<lambda>year.
       [(''year'', year),
        (''yearly_mean_LST'', aggregate_mean (yearData lstTimeSeries year) ''LST'')]) years"

record point_report =
  series :: "feature list"
  statistics :: feature
  annual :: "feature list"

definition analyzeLSTAtPoint :: "('g, 'f) platform \<Rightarrow> 'g \<Rightarrow> error + point_report" where
  "analyzeLSTAtPoint P point =
     bindE (lstTimeSeries_point P point) (\<lambda>lstTimeSeries.
     Inr \<lparr>series = lstTimeSeries,
          statistics = stats_point lstTimeSeries,
          annual = yearlyLST_point lstTimeSeries\<rparr>)"

section \<open>Sample data\<close>

text \<open>
  Two scenes of January 2014 over a region of two pixels. In the first, pixel
  \<open>(0, 0)\<close> is clear and pixel \<open>(1, 0)\<close> is flagged as cloud; in the
  second, both are flagged. The sample platform holds them in the first
  collection; the second collection holds one clear scene whose reported cloud
  cover is exactly 30.
\<close>

definition sample_qa :: "pix \<Rightarrow> int option" where
  "sample_qa p = (if p = (0, 0) then Some 0 else if p = (1, 0) then Some 16 else None)"

definition sample_scene :: "unit raster_image" where
  "sample_scene =
     \<lparr>bands = [(''QA_PIXEL'', IntBand sample_qa), (''ST_B10'', IntBand (\<lambda>p. Some 10000))],
      time_start = startDate + 5, cloud_cover = 10, footprint = ()\<rparr>"

definition cloudy_scene :: "unit raster_image" where
  "cloudy_scene =
     \<lparr>bands = [(''QA_PIXEL'', IntBand (\<lambda>p. Some 16)), (''ST_B10'', IntBand (\<lambda>p. Some 9000))],
      time_start = startDate + 16 * millis_per_day, cloud_cover = 15, footprint = ()\<rparr>"

definition hazy_scene :: "unit raster_image" where
  "hazy_scene =
     \<lparr>bands = [(''QA_PIXEL'', IntBand (\<lambda>p. Some 0)), (''ST_B10'', IntBand (\<lambda>p. Some 11000))],
      time_start = startDate + 40 * millis_per_day, cloud_cover = 30, footprint = ()\<rparr>"

definition sample_platform :: "(unit, unit) platform" where
  "sample_platform =
     \<lparr>catalog = (\<lambda>cid.
        if cid = ''LANDSAT/LC08/C02/T1_L2'' then [sample_scene, cloudy_scene]
        else if cid = ''LANDSAT/LC09/C02/T1_L2'' then [hazy_scene]
        else []),
      intersects = (\<lambda>g f. True),
      region_pixels = (\<lambda>g sc. [(0, 0), (1, 0)]),
      buffer = (\<lambda>g r. g)\<rparr>"

definition empty_platform :: "(unit, unit) platform" where
  "empty_platform =
     \<lparr>catalog = (\<lambda>cid. []),
      intersects = (\<lambda>g f. True),
      region_pixels = (\<lambda>g sc. [(0, 0), (1, 0)]),
      buffer = (\<lambda>g r. g)\<rparr>"

text \<open>
  Records as the two extractors write them, with the aggregate values 20, 25,
  30 and one null, and an image that already has its \<open>LST\<close> band.
\<close>

definition sample_records :: "feature list" where
  "sample_records =
     [[(''date'', Str ''2014-01-05''), (''LST_mean'', Num 20), (''LST_stdDev'', Num 1),
       (''LST_count'', Num 4), (''year'', Num 2014), (''month'', Num 1), (''day'', Num 5),
       (''doy'', Num 4)],
      [(''date'', Str ''2014-01-21''), (''LST_mean'', Null), (''LST_stdDev'', Null),
       (''LST_count'', Num 0), (''year'', Num 2014), (''month'', Num 1), (''day'', Num 21),
       (''doy'', Num 20)],
      [(''date'', Str ''2014-07-16''), (''LST_mean'', Num 25), (''LST_stdDev'', Num 2),
       (''LST_count'', Num 4), (''year'', Num 2014), (''month'', Num 7), (''day'', Num 16),
       (''doy'', Num 196)],
      [(''date'', Str ''2015-12-24''), (''LST_mean'', Num 30), (''LST_stdDev'', Num 1),
       (''LST_count'', Num 3), (''year'', Num 2015), (''month'', Num 12), (''day'', Num 24),
       (''doy'', Num 357)]]"

definition sample_point_records :: "feature list" where
  "sample_point_records =
     [[(''date'', Str ''2014-01-05''), (''LST'', Num 20), (''year'', Num 2014),
       (''month'', Num 1), (''day'', Num 5)],
      [(''date'', Str ''2014-01-21''), (''LST'', Null), (''year'', Num 2014),
       (''month'', Num 1), (''day'', Num 21)],
      [(''date'', Str ''2014-07-16''), (''LST'', Num 25), (''year'', Num 2014),
       (''month'', Num 7), (''day'', Num 16)],
      [(''date'', Str ''2015-12-24''), (''LST'', Num 30), (''year'', Num 2015),
       (''month'', Num 12), (''day'', Num 24)]]"

definition derived_scene :: "unit raster_image" where
  "derived_scene =
     \<lparr>bands = [(''LST'', FloatBand (\<lambda>p. if p = (0, 0) then Some 24 else Some 26))],
      time_start = startDate + 5, cloud_cover = 10, footprint = ()\<rparr>"

section \<open>Cloud mask: properties\<close>

lemma bindE_simps [simp]: "bindE (Inr x) f = f x" "bindE (Inl e) f = Inl e"
  by (simp_all add: bindE_def)

lemma select_Some: "map_of (bands img) n = Some b \<Longrightarrow> select img n = Inr (n, b)"
  by (simp add: select_def)

lemma and_push_bit_eq_0_iff: "(and (q::int) (push_bit n 1) = 0) = (\<not> bit q n)"
  by (simp add: bit_iff_and_push_bit_not_eq_0)

lemma valid_at_mask_band: "valid_at (mask_band keep b) p = (keep p \<and> valid_at b p)"
  by (cases b) (simp_all add: valid_at_def)

lemma band_value_mask_band: "keep p \<Longrightarrow> band_value (mask_band keep b) p = band_value b p"
  by (cases b) simp_all

lemma mask_on_cloudMask:
  "mask_on (and_img (and_img (eq (n, IntBand (\<lambda>p. map_option (\<lambda>v. and v (push_bit 3 1)) (qa p))) 0)
                             (eq (n, IntBand (\<lambda>p. map_option (\<lambda>v. and v (push_bit 4 1)) (qa p))) 0))
                    (eq (n, IntBand (\<lambda>p. map_option (\<lambda>v. and v (push_bit 2 1)) (qa p))) 0)) p
   = (\<exists>q. qa p = Some q \<and> \<not> bit q 3 \<and> \<not> bit q 4 \<and> \<not> bit q 2)"
proof (cases "qa p")
  case None
  then show ?thesis by (simp add: mask_on_def and_img_def eq_def)
next
  case (Some q)
  have "(and q 8 = 0) = (\<not> bit q 3)" "(and q 16 = 0) = (\<not> bit q 4)"
      "(and q 4 = 0) = (\<not> bit q 2)"
    using and_push_bit_eq_0_iff [of q 3] and_push_bit_eq_0_iff [of q 4]
      and_push_bit_eq_0_iff [of q 2] by simp_all
  with Some show ?thesis
    by (simp add: mask_on_def and_img_def eq_def)
qed

lemma maskClouds_result:
  assumes "map_of (bands img) ''QA_PIXEL'' = Some (IntBand qa)"
  shows "maskClouds img =
     Inr (img\<lparr>bands := map (\<lambda>(n, b). (n, mask_band
        (\<lambda>p. \<exists>q. qa p = Some q \<and> \<not> bit q 3 \<and> \<not> bit q 4 \<and> \<not> bit q 2) b)) (bands img)\<rparr>)"
proof -
  have "mask_on (and_img (and_img (eq (''QA_PIXEL'', IntBand (\<lambda>p. map_option (\<lambda>v. and v (push_bit 3 1)) (qa p))) 0)
                             (eq (''QA_PIXEL'', IntBand (\<lambda>p. map_option (\<lambda>v. and v (push_bit 4 1)) (qa p))) 0))
                    (eq (''QA_PIXEL'', IntBand (\<lambda>p. map_option (\<lambda>v. and v (push_bit 2 1)) (qa p))) 0))
      = (\<lambda>p. \<exists>q. qa p = Some q \<and> \<not> bit q 3 \<and> \<not> bit q 4 \<and> \<not> bit q 2)"
    by (rule ext) (rule mask_on_cloudMask)
  then show ?thesis
    using assms by (simp add: maskClouds_def select_Some bitwiseAnd_def updateMask_def)
qed

text \<open>
  Claim C2. When the image has the integer band \<open>QA_PIXEL\<close>, \<open>maskClouds\<close>
  succeeds and keeps the names and the order of the bands. A pixel of a band is
  valid in the output if and only if it was valid in that band of the input and
  the quality-assurance band has a value there with none of bits 3 (cloud
  shadow), 4 (cloud) and 2 (cirrus) set. Hence the valid pixels of every output
  band are among the valid pixels of the input band. A pixel where the
  quality-assurance band itself is masked has no flags to read and is excluded.
\<close>

theorem maskClouds_valid_iff:
  assumes "map_of (bands img) ''QA_PIXEL'' = Some (IntBand qa)"
  shows "\<exists>img'. maskClouds img = Inr img' \<and>
     list_all2 (\<lambda>(n, b) (n', b'). n' = n \<and>
        (\<forall>p. valid_at b' p = (valid_at b p \<and> (\<exists>q. qa p = Some q \<and> \<not> bit q 3 \<and> \<not> bit q 4 \<and> \<not> bit q 2))) \<and>
        {p. valid_at b' p} \<subseteq> {p. valid_at b p})
       (bands img) (bands img')"
proof -
  let ?keep = "\<lambda>p. \<exists>q. qa p = Some q \<and> \<not> bit q 3 \<and> \<not> bit q 4 \<and> \<not> bit q 2"
  let ?bs = "map (\<lambda>(n, b). (n, mask_band ?keep b)) (bands img)"
  have "list_all2 (\<lambda>(n, b) (n', b'). n' = n \<and>
        (\<forall>p. valid_at b' p = (valid_at b p \<and> ?keep p)) \<and>
        {p. valid_at b' p} \<subseteq> {p. valid_at b p}) (bands img) ?bs"
    by (auto simp: list_all2_map2 valid_at_mask_band intro!: list_all2_refl)
  then show ?thesis
    using maskClouds_result [OF assms] by simp
qed

text \<open>
  In the sample scene pixel \<open>(0, 0)\<close> is clear and pixel \<open>(1, 0)\<close> carries the
  cloud bit: after masking, the thermal band is valid at the first and invalid at
  the second.
\<close>

theorem maskClouds_valid_iff_witness:
  "\<exists>img' st'. maskClouds sample_scene = Inr img' \<and>
     map_of (bands img') ''ST_B10'' = Some st' \<and>
     valid_at st' (0, 0) \<and> \<not> valid_at st' (1, 0)"
proof -
  have h: "map_of (bands sample_scene) ''QA_PIXEL'' = Some (IntBand sample_qa)"
    by (simp add: sample_scene_def)
  from maskClouds_valid_iff [OF h] obtain img' where
    r: "maskClouds sample_scene = Inr img'"
    and l: "list_all2 (\<lambda>(n, b) (n', b'). n' = n \<and>
        (\<forall>p. valid_at b' p = (valid_at b p \<and> (\<exists>q. sample_qa p = Some q \<and> \<not> bit q 3 \<and> \<not> bit q 4 \<and> \<not> bit q 2))) \<and>
        {p. valid_at b' p} \<subseteq> {p. valid_at b p})
       (bands sample_scene) (bands img')"
    by blast
  from l obtain qa' st' where
    bs: "bands img' = [(''QA_PIXEL'', qa'), (''ST_B10'', st')]"
    and v: "\<forall>p. valid_at st' p = (valid_at (IntBand (\<lambda>p. Some 10000)) p \<and>
        (\<exists>q. sample_qa p = Some q \<and> \<not> bit q 3 \<and> \<not> bit q 4 \<and> \<not> bit q 2))"
    by (auto simp: sample_scene_def list_all2_Cons1)
  from v have "valid_at st' (0, 0)" "\<not> valid_at st' (1, 0)"
    by (simp_all add: valid_at_def sample_qa_def)
  with r bs show ?thesis by simp
qed

section \<open>Double-precision numbers: properties\<close>

text \<open>
  Rounding to the nearest integer is off by at most a half, so a double is off
  by at most half a unit in the last place, that is by at most \<open>2 ^ (- 53)\<close>
  of the magnitude in the normal range.
\<close>

lemma round_even_error: "\<bar>real_of_int (round_even y) - y\<bar> \<le> 1 / 2"
  unfolding round_even_def Let_def by (auto simp: abs_le_iff)

lemma find_append_None: "find P xs = None \<Longrightarrow> find P (xs @ ys) = find P ys"
  by (induction xs) (auto split: if_splits)

lemma find_upto_eq:
  fixes a b e :: int
  assumes "a \<le> e" and "e \<le> b" and "P e" and "\<And>k. a \<le> k \<Longrightarrow> k < e \<Longrightarrow> \<not> P k"
  shows "find P [a .. b] = Some e"
proof -
  have "[a .. b] = [a .. e - 1] @ e # [e + 1 .. b]"
    using assms(1,2) by (rule upto_split3)
  moreover have "find P [a .. e - 1] = None"
    using assms(4) by (simp add: find_None_iff)
  ultimately show ?thesis
    using assms(3) by (simp add: find_append_None)
qed

lemma find_upto_Some:
  fixes a b e :: int
  assumes "find P [a .. b] = Some e"
  shows "e = a \<or> \<not> P (e - 1)"
proof -
  from assms obtain i where i: "i < length [a .. b]" "e = [a .. b] ! i"
    and least: "\<forall>j<i. \<not> P ([a .. b] ! j)"
    unfolding find_Some_iff by blast
  from i(1) have ib: "a + int i \<le> b" by simp
  then have e: "e = a + int i" using i(2) by (simp add: nth_upto)
  show ?thesis
  proof (cases i)
    case 0
    with e show ?thesis by simp
  next
    case (Suc j)
    with least have "\<not> P ([a .. b] ! j)" by simp
    moreover have "[a .. b] ! j = a + int j" using ib Suc by (simp add: nth_upto)
    moreover have "a + int j = e - 1" using e Suc by simp
    ultimately show ?thesis by simp
  qed
qed

lemma find_upto_None_last:
  fixes a b :: int
  assumes "find P [a .. b] = None" and "a \<le> b"
  shows "\<not> P b"
  using assms by (simp add: find_None_iff)

lemma pow2_le: "k \<le> e \<Longrightarrow> (2::real) powi k \<le> 2 powi e"
  by (rule power_int_increasing) simp_all

lemma exponent_eq:
  assumes "2 powi e \<le> \<bar>x\<bar>" and "\<bar>x\<bar> < 2 powi (e + 1)"
    and "min_exponent \<le> e" and "e \<le> max_exponent"
  shows "exponent x = e"
proof -
  have "find (\<lambda>k. \<bar>x\<bar> < 2 powi (k + 1)) [min_exponent .. max_exponent] = Some e"
  proof (rule find_upto_eq [where P = "\<lambda>k. \<bar>x\<bar> < 2 powi (k + 1)", OF assms(3,4) assms(2)])
    fix k :: int
    assume "k < e"
    then have "(2::real) powi (k + 1) \<le> 2 powi e" by (intro pow2_le) simp
    with assms(1) show "\<not> \<bar>x\<bar> < 2 powi (k + 1)" by linarith
  qed
  then show ?thesis unfolding exponent_def by (simp only: option.case)
qed

lemma exponent_small:
  assumes "\<bar>x\<bar> < 2 powi (min_exponent + 1)"
  shows "exponent x = min_exponent"
proof -
  have "min_exponent \<le> max_exponent" by (simp add: min_exponent_def max_exponent_def)
  then have "find (\<lambda>k. \<bar>x\<bar> < 2 powi (k + 1)) [min_exponent .. max_exponent] = Some min_exponent"
    using assms by (intro find_upto_eq) simp_all
  then show ?thesis unfolding exponent_def by (simp only: option.case)
qed

lemma double_of_binade:
  assumes "2 powi e \<le> \<bar>x\<bar>" and "\<bar>x\<bar> < 2 powi (e + 1)"
    and "min_exponent \<le> e" and "e \<le> max_exponent"
  shows "double_of x = real_of_int (round_even (x / 2 powi (e - 52))) * 2 powi (e - 52)"
  by (simp add: double_of_def Let_def exponent_eq [OF assms])

lemma double_of_ulp: "\<bar>double_of x - x\<bar> \<le> 2 powi (exponent x - 52) / 2"
proof -
  define s :: real where "s = 2 powi (exponent x - 52)"
  have s: "0 < s" by (simp add: s_def zero_less_power_int)
  have d: "double_of x = real_of_int (round_even (x / s)) * s"
    unfolding double_of_def Let_def s_def by simp
  have "double_of x - x = (real_of_int (round_even (x / s)) - x / s) * s"
    unfolding d using s by (simp add: field_simps)
  then have "\<bar>double_of x - x\<bar> = \<bar>real_of_int (round_even (x / s)) - x / s\<bar> * s"
    using s by (simp add: abs_mult)
  also have "\<dots> \<le> (1 / 2) * s"
    using round_even_error [of "x / s"] s by (intro mult_right_mono) simp_all
  finally show ?thesis by (simp add: s_def)
qed

lemma exponent_le:
  assumes "2 powi min_exponent \<le> \<bar>x\<bar>"
  shows "2 powi exponent x \<le> \<bar>x\<bar>"
proof (cases "find (\<lambda>e. \<bar>x\<bar> < 2 powi (e + 1)) [min_exponent .. max_exponent]")
  case None
  have "min_exponent \<le> max_exponent" by (simp add: min_exponent_def max_exponent_def)
  with None have "\<not> \<bar>x\<bar> < 2 powi (max_exponent + 1)"
    by (rule find_upto_None_last)
  moreover have "(2::real) powi max_exponent \<le> 2 powi (max_exponent + 1)"
    by (intro pow2_le) simp
  ultimately have "2 powi max_exponent \<le> \<bar>x\<bar>" by linarith
  moreover have "exponent x = max_exponent"
    unfolding exponent_def None by (simp only: option.case)
  ultimately show ?thesis by (simp only:)
next
  case (Some e)
  have e: "exponent x = e"
    unfolding exponent_def Some by (simp only: option.case)
  from find_upto_Some [OF Some]
  have "e = min_exponent \<or> \<not> \<bar>x\<bar> < 2 powi (e - 1 + 1)" .
  then have "2 powi e \<le> \<bar>x\<bar>"
    using assms by auto
  then show ?thesis by (simp only: e)
qed

lemma double_of_error:
  assumes "2 powi min_exponent \<le> \<bar>x\<bar>"
  shows "\<bar>double_of x - x\<bar> \<le> \<bar>x\<bar> / 2 ^ 53"
proof -
  have "(2::real) powi (exponent x - 52) = 2 powi exponent x / 2 powi 52"
    by (rule power_int_diff) simp
  also have "\<dots> \<le> \<bar>x\<bar> / 2 powi 52"
    using exponent_le [OF assms] by (intro divide_right_mono) simp_all
  finally have "(2::real) powi (exponent x - 52) / 2 \<le> \<bar>x\<bar> / 2 ^ 53" by simp
  with double_of_ulp [of x] show ?thesis by linarith
qed

lemma double_of_error_bound:
  assumes "\<bar>x\<bar> \<le> b" and "1 \<le> b"
  shows "\<bar>double_of x - x\<bar> \<le> b / 2 ^ 53"
proof (cases "2 powi min_exponent \<le> \<bar>x\<bar>")
  case True
  have "\<bar>double_of x - x\<bar> \<le> \<bar>x\<bar> / 2 ^ 53" by (rule double_of_error [OF True])
  also have "\<dots> \<le> b / 2 ^ 53" using assms(1) by (simp add: divide_right_mono)
  finally show ?thesis .
next
  case False
  define lo :: real where "lo = 2 powi min_exponent"
  define hi :: real where "hi = 2 powi (min_exponent + 1)"
  define t :: real where "t = 2 powi (min_exponent - 52)"
  have "lo \<le> hi" unfolding lo_def hi_def by (intro pow2_le) simp
  moreover from False have "\<bar>x\<bar> < lo" unfolding lo_def by (simp only: not_le)
  ultimately have "\<bar>x\<bar> < hi" by (rule less_le_trans [rotated])
  then have "exponent x = min_exponent" unfolding hi_def by (rule exponent_small)
  with double_of_ulp [of x] have u: "\<bar>double_of x - x\<bar> \<le> t / 2"
    unfolding t_def by (simp only:)
  have "t \<le> 2 powi (- 52)"
    unfolding t_def by (intro pow2_le) (simp add: min_exponent_def)
  also have "(2::real) powi (- 52) = 1 / 2 ^ 52" by simp
  finally have "t / 2 \<le> 1 / 2 ^ 53" by simp
  moreover have "(1::real) / 2 ^ 53 \<le> b / 2 ^ 53" using assms(2) by (simp add: divide_right_mono)
  ultimately show ?thesis using u by linarith
qed

text \<open>
  The constants of the calibration as doubles, and the three roundings for the
  digital number 10000.
\<close>

lemma double_of_scale_factor: "double_of 0.00341802 = 3940708761176295 / 1152921504606846976"
  by (subst double_of_binade [where e = "- 9"])
    (simp_all add: round_even_def min_exponent_def max_exponent_def)

lemma double_of_scaled_10000: "double_of (10000 * (3940708761176295 / 1152921504606846976)) = 2405217749741391 / 70368744177664"
  by (subst double_of_binade [where e = 5])
    (simp_all add: round_even_def min_exponent_def max_exponent_def)

lemma double_of_offset: "double_of 149.0 = 149"
  by (subst double_of_binade [where e = 7])
    (simp_all add: round_even_def min_exponent_def max_exponent_def)

lemma double_of_kelvin_10000: "double_of (2405217749741391 / 70368744177664 + 149) = 805635039513333 / 4398046511104"
  by (subst double_of_binade [where e = 7])
    (simp_all add: round_even_def min_exponent_def max_exponent_def)

lemma double_of_kelvin_shift: "double_of 273.15 = 2402652809016115 / 8796093022208"
  by (subst double_of_binade [where e = 8])
    (simp_all add: round_even_def min_exponent_def max_exponent_def)

lemma double_of_celsius_10000: "double_of (805635039513333 / 4398046511104 - 2402652809016115 / 8796093022208) = - (791382729989449 / 8796093022208)"
  by (subst double_of_binade [where e = 6])
    (simp_all add: round_even_def min_exponent_def max_exponent_def)

text \<open>
  For a 16-bit digital number the three roundings and the rounding of the two
  inexact constants stay within \<open>2 ^ (- 42)\<close> of the exact value.
\<close>

lemma lst_rounding_error:
  fixes dn :: real
  assumes "0 \<le> dn" "dn \<le> 65535"
  shows "\<bar>double_of (double_of (double_of (dn * double_of 0.00341802) + double_of 149.0) - double_of 273.15)
           - (dn * 0.00341802 + 149.0 - 273.15)\<bar> \<le> 1 / 2 ^ 42"
proof -
  define x1 where "x1 = dn * (3940708761176295 / 1152921504606846976)"
  define p where "p = double_of x1"
  define x2 where "x2 = p + 149"
  define a where "a = double_of x2"
  define x3 where "x3 = a - 2402652809016115 / 8796093022208"
  define r where "r = double_of x3"
  have r: "double_of (double_of (double_of (dn * double_of 0.00341802) + double_of 149.0) - double_of 273.15) = r"
    unfolding double_of_scale_factor double_of_offset double_of_kelvin_shift r_def x3_def a_def x2_def p_def x1_def ..
  have b1: "0 \<le> x1" "x1 \<le> 225" using assms by (simp_all add: x1_def)
  have e0: "\<bar>x1 - dn * 0.00341802\<bar> \<le> 1 / 2 ^ 45" using assms by (simp add: x1_def abs_le_iff)
  have e1: "\<bar>p - x1\<bar> \<le> 225 / 2 ^ 53"
    unfolding p_def using b1 by (intro double_of_error_bound) simp_all
  have b2: "\<bar>x2\<bar> \<le> 375" using e1 b1 unfolding x2_def abs_le_iff by simp
  have e2: "\<bar>a - x2\<bar> \<le> 375 / 2 ^ 53"
    unfolding a_def by (rule double_of_error_bound [OF b2]) simp
  have b3: "\<bar>x3\<bar> \<le> 650" using e2 b2 unfolding x3_def abs_le_iff by simp
  have e3: "\<bar>r - x3\<bar> \<le> 650 / 2 ^ 53"
    unfolding r_def by (rule double_of_error_bound [OF b3]) simp
  have "\<bar>r - (dn * 0.00341802 + 149.0 - 273.15)\<bar> \<le> 1 / 2 ^ 42"
    using e0 e1 e2 e3 unfolding x3_def x2_def abs_le_iff by simp
  then show ?thesis unfolding r .
qed

lemma lst_10000:
  "double_of (double_of (double_of (10000 * double_of 0.00341802) + double_of 149.0) - double_of 273.15) =
     - (791382729989449 / 8796093022208)"
  by (simp only: double_of_scale_factor double_of_scaled_10000 double_of_offset
      double_of_kelvin_10000 double_of_kelvin_shift double_of_celsius_10000)

lemma lst_10000_normal:
  "double_of (double_of (double_of (10000 * double_of (170901 / 50000000)) + double_of 149) - double_of (5463 / 20)) =
     - (791382729989449 / 8796093022208)"
  using lst_10000 by simp

section \<open>Surface temperature: properties\<close>

lemma calculateLST_result:
  assumes "map_of (bands img) ''ST_B10'' = Some st"
  shows "calculateLST img =
     Inr (img\<lparr>bands := bands img @
        [(fresh_name (band_names img) ''LST'',
          FloatBand (\<lambda>p. map_option
            (\<lambda>dn. double_of (double_of (double_of (dn * double_of 0.00341802) + double_of 149.0) - double_of 273.15))
            (band_value st p)))]\<rparr>)"
  using assms
  by (simp add: calculateLST_def select_Some addBands_def rename_def subtract_def add_def
      multiply_def option.map_comp comp_def)

lemma fresh_name_unused: "n \<notin> set names \<Longrightarrow> fresh_name names n = n"
  by (simp add: fresh_name_def)

lemma map_of_append_new:
  "n \<notin> fst ` set xs \<Longrightarrow> map_of (xs @ [(n, v)]) n = Some v"
  by (simp add: map_add_def map_of_eq_None_iff [THEN iffD2])

text \<open>
  Claim C1, as amended. For an image with the raw thermal band \<open>ST_B10\<close> and no
  band named \<open>LST\<close> yet, \<open>calculateLST\<close> succeeds, and the band \<open>LST\<close> of its
  result has at every pixel with digital number \<open>dn\<close> the value computed in
  double arithmetic: the product of \<open>dn\<close> and the scale factor 0.00341802
  first, rounded, then the sum with 149.0, rounded, then the difference with
  273.15, rounded. A masked pixel of the raw band stays masked. For a 16-bit
  digital number this value is within \<open>2 ^ (- 42)\<close> of
  \<open>dn * 0.00341802 + 149.0 - 273.15\<close>; equality with that decimal value, as
  the specification states it, does not hold in general.
\<close>

theorem calculateLST_pixel:
  assumes "map_of (bands img) ''ST_B10'' = Some st"
    and "''LST'' \<notin> set (band_names img)"
  shows "\<exists>img' lst. calculateLST img = Inr img' \<and>
     select img' ''LST'' = Inr (''LST'', lst) \<and>
     (\<forall>p. band_value lst p =
        map_option
          (\<lambda>dn. double_of (double_of (double_of (dn * double_of 0.00341802) + double_of 149.0) - double_of 273.15))
          (band_value st p)) \<and>
     (\<forall>p dn. band_value st p = Some dn \<longrightarrow> 0 \<le> dn \<longrightarrow> dn \<le> 65535 \<longrightarrow>
        (\<exists>v. band_value lst p = Some v \<and>
           \<bar>v - (dn * 0.00341802 + 149.0 - 273.15)\<bar> \<le> 1 / 2 ^ 42))"
proof -
  let ?f = "\<lambda>dn. double_of (double_of (double_of (dn * double_of 0.00341802) + double_of 149.0) - double_of 273.15)"
  let ?lst = "FloatBand (\<lambda>p. map_option ?f (band_value st p))"
  let ?img' = "img\<lparr>bands := bands img @ [(''LST'', ?lst)]\<rparr>"
  have r: "calculateLST img = Inr ?img'"
    using calculateLST_result [OF assms(1)] assms(2) by (simp add: fresh_name_unused)
  have s: "select ?img' ''LST'' = Inr (''LST'', ?lst)"
  proof -
    have "''LST'' \<notin> fst ` set (bands img)"
      using assms(2) by (simp add: band_names_def)
    then have "map_of (bands img @ [(''LST'', ?lst)]) ''LST'' = Some ?lst"
      by (rule map_of_append_new)
    then show ?thesis
      by (simp add: select_def del: map_of_append)
  qed
  have v: "\<forall>p. band_value ?lst p = map_option ?f (band_value st p)" by simp
  have e: "\<forall>p dn. band_value st p = Some dn \<longrightarrow> 0 \<le> dn \<longrightarrow> dn \<le> 65535 \<longrightarrow>
        (\<exists>v. band_value ?lst p = Some v \<and>
           \<bar>v - (dn * 0.00341802 + 149.0 - 273.15)\<bar> \<le> 1 / 2 ^ 42)"
  proof (intro allI impI)
    fix p dn
    assume dn: "band_value st p = Some dn" "0 \<le> dn" "dn \<le> 65535"
    from dn(1) have "band_value ?lst p = Some (?f dn)" by simp
    moreover have "\<bar>?f dn - (dn * 0.00341802 + 149.0 - 273.15)\<bar> \<le> 1 / 2 ^ 42"
      using dn(2,3) by (rule lst_rounding_error)
    ultimately show "\<exists>v. band_value ?lst p = Some v \<and>
           \<bar>v - (dn * 0.00341802 + 149.0 - 273.15)\<bar> \<le> 1 / 2 ^ 42"
      by blast
  qed
  from r s v e show ?thesis by blast
qed

text \<open>
  The digital number 10000 of the sample scene gives the double
  \<open>- 791382729989449 / 2 ^ 43\<close>, printed -89.96979999999996, which is within
  \<open>2 ^ (- 42)\<close> of -89.9698.
\<close>

theorem calculateLST_pixel_witness:
  "\<exists>img' lst. calculateLST sample_scene = Inr img' \<and>
     select img' ''LST'' = Inr (''LST'', lst) \<and>
     band_value lst (0, 0) = Some (- (791382729989449 / 8796093022208)) \<and>
     \<bar>- (791382729989449 / 8796093022208) - (- 89.9698 :: real)\<bar> \<le> 1 / 2 ^ 42"
proof -
  have h1: "map_of (bands sample_scene) ''ST_B10'' = Some (IntBand (\<lambda>p. Some 10000))"
    by (simp add: sample_scene_def)
  have h2: "''LST'' \<notin> set (band_names sample_scene)"
    by (simp add: sample_scene_def band_names_def)
  from calculateLST_pixel [OF h1 h2] obtain img' lst where
    r: "calculateLST sample_scene = Inr img'" "select img' ''LST'' = Inr (''LST'', lst)"
    and v: "\<forall>p. band_value lst p =
        map_option
          (\<lambda>dn. double_of (double_of (double_of (dn * double_of 0.00341802) + double_of 149.0) - double_of 273.15))
          (band_value (IntBand (\<lambda>p. Some 10000)) p)"
    and e: "\<forall>p dn. band_value (IntBand (\<lambda>p. Some 10000)) p = Some dn \<longrightarrow> 0 \<le> dn \<longrightarrow> dn \<le> 65535 \<longrightarrow>
        (\<exists>v. band_value lst p = Some v \<and>
           \<bar>v - (dn * 0.00341802 + 149.0 - 273.15)\<bar> \<le> 1 / 2 ^ 42)"
    by blast
  from v have "band_value lst (0, 0) = Some (- (791382729989449 / 8796093022208))"
    by (simp add: lst_10000_normal)
  moreover from e [rule_format, of "(0, 0)" 10000] this
  have "\<bar>- (791382729989449 / 8796093022208) - (- 89.9698 :: real)\<bar> \<le> 1 / 2 ^ 42"
    by simp
  ultimately show ?thesis using r by blast
qed

text \<open>
  The value the specification gives for the digital number 10000 is not the
  value of the band: the band holds the double above, which differs from
  -89.9698.
\<close>

theorem calculateLST_value_counterexample:
  "\<exists>img' lst. calculateLST sample_scene = Inr img' \<and>
     select img' ''LST'' = Inr (''LST'', lst) \<and>
     band_value lst (0, 0) = Some (- (791382729989449 / 8796093022208)) \<and>
     band_value lst (0, 0) \<noteq> Some (10000 * 0.00341802 + 149.0 - 273.15) \<and>
     band_value lst (0, 0) \<noteq> Some (- 89.9698)"
proof -
  let ?lst = "FloatBand (\<lambda>p. map_option
      (\<lambda>dn. double_of (double_of (double_of (dn * double_of 0.00341802) + double_of 149.0) - double_of 273.15))
      (band_value (IntBand (\<lambda>p. Some 10000)) p))"
  let ?img' = "sample_scene\<lparr>bands := bands sample_scene @ [(''LST'', ?lst)]\<rparr>"
  have h1: "map_of (bands sample_scene) ''ST_B10'' = Some (IntBand (\<lambda>p. Some 10000))"
    by (simp add: sample_scene_def)
  have "calculateLST sample_scene = Inr ?img'"
    using calculateLST_result [OF h1]
    by (simp add: fresh_name_unused sample_scene_def band_names_def)
  moreover have "select ?img' ''LST'' = Inr (''LST'', ?lst)"
    by (simp add: select_def sample_scene_def)
  moreover have "band_value ?lst (0, 0) = Some (- (791382729989449 / 8796093022208))"
    by (simp add: lst_10000_normal)
  moreover have "band_value ?lst (0, 0) \<noteq> Some (10000 * 0.00341802 + 149.0 - 273.15)"
    by (simp add: lst_10000_normal)
  moreover have "band_value ?lst (0, 0) \<noteq> Some (- 89.9698)"
    by (simp add: lst_10000_normal)
  ultimately show ?thesis by blast
qed

text \<open>
  Claim C9. For an image with the band \<open>ST_B10\<close>, the result of \<open>calculateLST\<close>
  is the input with one band appended at the end: the bands that were there
  keep their names, order and pixels, and the metadata is the same. The new band
  is named \<open>LST\<close> when the input had no band of that name. The input is a
  value; nothing is updated in place.
\<close>

theorem calculateLST_appends:
  assumes "map_of (bands img) ''ST_B10'' = Some st"
  shows "\<exists>n lst. calculateLST img = Inr (img\<lparr>bands := bands img @ [(n, lst)]\<rparr>) \<and>
     (''LST'' \<notin> set (band_names img) \<longrightarrow> n = ''LST'')"
proof -
  let ?n = "fresh_name (band_names img) ''LST''"
  let ?lst = "FloatBand (\<lambda>p. map_option
      (\<lambda>dn. double_of (double_of (double_of (dn * double_of 0.00341802) + double_of 149.0) - double_of 273.15))
      (band_value st p))"
  have "calculateLST img = Inr (img\<lparr>bands := bands img @ [(?n, ?lst)]\<rparr>)"
    by (rule calculateLST_result [OF assms])
  moreover have "''LST'' \<notin> set (band_names img) \<longrightarrow> ?n = ''LST''"
    by (simp add: fresh_name_unused)
  ultimately show ?thesis by blast
qed

text \<open>The sample scene has \<open>ST_B10\<close> and no \<open>LST\<close>.\<close>

theorem calculateLST_appends_witness:
  "\<exists>lst. calculateLST sample_scene =
     Inr (sample_scene\<lparr>bands := bands sample_scene @ [(''LST'', lst)]\<rparr>)"
proof -
  have h1: "map_of (bands sample_scene) ''ST_B10'' = Some (IntBand (\<lambda>p. Some 10000))"
    by (simp add: sample_scene_def)
  have h2: "''LST'' \<notin> set (band_names sample_scene)"
    by (simp add: sample_scene_def band_names_def)
  from calculateLST_appends [OF h1] h2 show ?thesis by blast
qed

section \<open>The built collection: properties\<close>

lemma bindE_eq_Inr: "(bindE m f = Inr y) = (\<exists>x. m = Inr x \<and> f x = Inr y)"
  by (cases m) simp_all

lemma mapE_Inr: "(mapE f xs = Inr ys) = list_all2 (\<lambda>x y. f x = Inr y) xs ys"
proof (induction xs arbitrary: ys)
  case Nil
  show ?case by auto
next
  case (Cons x xs)
  show ?case
    by (cases ys) (auto simp: bindE_eq_Inr Cons.IH)
qed

lemma mapE_mapE_Inr:
  "(bindE (mapE f xs) (mapE h) = Inr zs) = list_all2 (\<lambda>x z. bindE (f x) h = Inr z) xs zs"
proof -
  have "(bindE (mapE f xs) (mapE h) = Inr zs) =
      (\<exists>ys. list_all2 (\<lambda>x y. f x = Inr y) xs ys \<and> list_all2 (\<lambda>y z. h y = Inr z) ys zs)"
    by (simp add: bindE_eq_Inr mapE_Inr)
  also have "\<dots> = (list_all2 (\<lambda>x y. f x = Inr y) OO list_all2 (\<lambda>y z. h y = Inr z)) xs zs"
    by (rule relcompp_apply [symmetric])
  also have "\<dots> = list_all2 ((\<lambda>x y. f x = Inr y) OO (\<lambda>y z. h y = Inr z)) xs zs"
    by (simp only: list.rel_compp)
  also have "(\<lambda>x y. f x = Inr y) OO (\<lambda>y z. h y = Inr z) = (\<lambda>x z. bindE (f x) h = Inr z)"
    by (auto simp: OO_def bindE_eq_Inr fun_eq_iff)
  finally show ?thesis .
qed

lemma maskClouds_metadata:
  "maskClouds img = Inr img' \<Longrightarrow>
     time_start img' = time_start img \<and> cloud_cover img' = cloud_cover img \<and>
     footprint img' = footprint img"
  by (auto simp: maskClouds_def bindE_eq_Inr updateMask_def)

lemma calculateLST_metadata:
  "calculateLST img = Inr img' \<Longrightarrow>
     time_start img' = time_start img \<and> cloud_cover img' = cloud_cover img \<and>
     footprint img' = footprint img"
  by (auto simp: calculateLST_def bindE_eq_Inr addBands_def)

lemma processed_metadata:
  "bindE (maskClouds img) calculateLST = Inr c \<Longrightarrow>
     time_start c = time_start img \<and> cloud_cover c = cloud_cover img \<and>
     footprint c = footprint img"
  by (auto simp: bindE_eq_Inr dest!: maskClouds_metadata calculateLST_metadata)

lemma filter_chain:
  "filter_lt_CLOUD_COVER thr (filterDate s e (filterBounds P g coll)) =
     filter (\<lambda>img. intersects P g (footprint img) \<and> s \<le> time_start img \<and>
                   time_start img < e \<and> cloud_cover img < thr) coll"
  by (induction coll) (auto simp: filter_lt_CLOUD_COVER_def filterDate_def filterBounds_def)

lemma landsat_Inr:
  "(landsat P cid g s e thr = Inr A) =
     list_all2 (\<lambda>img c. bindE (maskClouds img) calculateLST = Inr c)
       (filter (\<lambda>img. intersects P g (footprint img) \<and> s \<le> time_start img \<and>
                   time_start img < e \<and> cloud_cover img < thr) (catalog P cid)) A"
  by (simp add: landsat_def mapE_mapE_Inr filter_chain)

lemma list_all2_member_left:
  "list_all2 R xs ys \<Longrightarrow> x \<in> set xs \<Longrightarrow> \<exists>y \<in> set ys. R x y"
  by (induction rule: list_all2_induct) auto

lemma list_all2_member_right:
  "list_all2 R xs ys \<Longrightarrow> y \<in> set ys \<Longrightarrow> \<exists>x \<in> set xs. R x y"
  by (induction rule: list_all2_induct) auto

text \<open>
  Claim C3. The area tool builds its collection with the configured dates and
  the threshold 30, the point tool with the same dates and the threshold 20. Let
  the collection be built for any geometry, date range and threshold. When the
  build succeeds, the collection is the merge of the two
  sources, each filtered and processed on its own: its members are, in order,
  the processed scenes of the first source that pass the three filters, then
  those of the second. A scene of either source has its processed image in the
  collection if and only if its footprint meets the geometry, its acquisition
  time is at or after the start and before the end, and its reported cloud
  cover is strictly below the threshold.
\<close>

theorem allLandsat_members:
  assumes "allLandsat P g s e thr = Inr C"
  shows "allLandsat_area P g = allLandsat P g startDate endDate 30 \<and>
   allLandsat_point P g = allLandsat P g startDate endDate 20 \<and>
   (\<exists>A B. C = A @ B \<and>
     list_all2 (\<lambda>img c. bindE (maskClouds img) calculateLST = Inr c)
       (filter (\<lambda>img. intersects P g (footprint img) \<and> s \<le> time_start img \<and>
                   time_start img < e \<and> cloud_cover img < thr)
          (catalog P ''LANDSAT/LC08/C02/T1_L2'')) A \<and>
     list_all2 (\<lambda>img c. bindE (maskClouds img) calculateLST = Inr c)
       (filter (\<lambda>img. intersects P g (footprint img) \<and> s \<le> time_start img \<and>
                   time_start img < e \<and> cloud_cover img < thr)
          (catalog P ''LANDSAT/LC09/C02/T1_L2'')) B \<and>
     (\<forall>img \<in> set (catalog P ''LANDSAT/LC08/C02/T1_L2'') \<union> set (catalog P ''LANDSAT/LC09/C02/T1_L2'').
        (\<exists>c \<in> set C. bindE (maskClouds img) calculateLST = Inr c) =
        (intersects P g (footprint img) \<and> s \<le> time_start img \<and> time_start img < e \<and>
         cloud_cover img < thr)))"
proof -
  have tools: "allLandsat_area P g = allLandsat P g startDate endDate 30"
    "allLandsat_point P g = allLandsat P g startDate endDate 20"
    by (simp_all add: allLandsat_area_def allLandsat_point_def)
  let ?sel = "\<lambda>img. intersects P g (footprint img) \<and> s \<le> time_start img \<and>
                   time_start img < e \<and> cloud_cover img < thr"
  let ?R = "\<lambda>img c. bindE (maskClouds img) calculateLST = Inr c"
  let ?L8 = "catalog P ''LANDSAT/LC08/C02/T1_L2''"
  let ?L9 = "catalog P ''LANDSAT/LC09/C02/T1_L2''"
  from assms obtain A B where
    A: "landsat P ''LANDSAT/LC08/C02/T1_L2'' g s e thr = Inr A"
    and B: "landsat P ''LANDSAT/LC09/C02/T1_L2'' g s e thr = Inr B"
    and C: "C = A @ B"
    by (auto simp: allLandsat_def bindE_eq_Inr merge_def)
  have rA: "list_all2 ?R (filter ?sel ?L8) A" using A by (simp only: landsat_Inr)
  have rB: "list_all2 ?R (filter ?sel ?L9) B" using B by (simp only: landsat_Inr)
  have rC: "list_all2 ?R (filter ?sel ?L8 @ filter ?sel ?L9) C"
    unfolding C using rA rB by (rule list_all2_appendI)
  have "(\<exists>c \<in> set C. ?R img c) = ?sel img" if mem: "img \<in> set ?L8 \<union> set ?L9" for img
  proof
    assume "\<exists>c \<in> set C. ?R img c"
    then obtain c where c: "c \<in> set C" "?R img c" by blast
    from list_all2_member_right [OF rC c(1)] obtain src where
      src: "src \<in> set (filter ?sel ?L8 @ filter ?sel ?L9)" "?R src c" by blast
    from src(1) have "?sel src" by auto
    moreover have "time_start c = time_start src" "cloud_cover c = cloud_cover src"
        "footprint c = footprint src"
      using processed_metadata [OF src(2)] by simp_all
    moreover have "time_start c = time_start img" "cloud_cover c = cloud_cover img"
        "footprint c = footprint img"
      using processed_metadata [OF c(2)] by simp_all
    ultimately show "?sel img" by simp
  next
    assume "?sel img"
    with mem have "img \<in> set (filter ?sel ?L8 @ filter ?sel ?L9)" by auto
    from list_all2_member_left [OF rC this] show "\<exists>c \<in> set C. ?R img c" .
  qed
  with C rA rB tools show ?thesis by blast
qed

section \<open>The extractor: properties\<close>

lemma calculateLST_has_LST:
  assumes "calculateLST img = Inr img'"
  shows "\<exists>lst. select img' ''LST'' = Inr (''LST'', lst)"
proof -
  from assms obtain st where st: "map_of (bands img) ''ST_B10'' = Some st"
    by (auto simp: calculateLST_def bindE_eq_Inr select_def split: option.splits)
  let ?n = "fresh_name (band_names img) ''LST''"
  obtain b where img': "img' = img\<lparr>bands := bands img @ [(?n, b)]\<rparr>"
    using calculateLST_result [OF st] assms by simp
  show ?thesis
  proof (cases "''LST'' \<in> set (band_names img)")
    case True
    then have "map_of (bands img) ''LST'' \<noteq> None"
      by (simp add: band_names_def map_of_eq_None_iff)
    then obtain old where "map_of (bands img) ''LST'' = Some old" by blast
    then show ?thesis by (simp add: img' select_def)
  next
    case False
    then have "?n = ''LST''" by (simp add: fresh_name_unused)
    moreover from False have "''LST'' \<notin> fst ` set (bands img)" by (simp add: band_names_def)
    then have "map_of (bands img @ [(''LST'', b)]) ''LST'' = Some b" by (rule map_of_append_new)
    ultimately show ?thesis by (simp add: img' select_def del: map_of_append)
  qed
qed

lemma processed_has_LST:
  "bindE (maskClouds img) calculateLST = Inr c \<Longrightarrow> \<exists>lst. select c ''LST'' = Inr (''LST'', lst)"
  by (auto simp: bindE_eq_Inr dest: calculateLST_has_LST)

lemma mean_reducer_Nil: "mean_reducer [] = None"
  by (simp add: mean_reducer_def)

lemma map_filter_all_None:
  "list_all (\<lambda>p. f p = None) ps \<Longrightarrow> List.map_filter f ps = []"
  by (induction ps) (simp_all add: List.map_filter_simps)

lemma region_values_masked:
  "list_all (\<lambda>p. \<not> valid_at lst p) (region_pixels P g sc) \<Longrightarrow> region_values P (n, lst) g sc = []"
  by (simp add: region_values_def valid_at_def map_filter_all_None)

lemma extractLST_area_record:
  assumes "select c ''LST'' = Inr (''LST'', lst)"
  shows "extractLST_area P geometry c =
     Inr [(''date'', Str (format_date (time_start c))),
          (''LST_mean'', val_of (mean_reducer (region_values P (''LST'', lst) geometry scale))),
          (''LST_stdDev'', val_of (stdDev_reducer (region_values P (''LST'', lst) geometry scale))),
          (''LST_count'', Num (real (length (region_values P (''LST'', lst) geometry scale)))),
          (''year'', Num (real_of_int (date_year (time_start c)))),
          (''month'', Num (real_of_int (date_month (time_start c)))),
          (''day'', Num (real_of_int (date_day (time_start c)))),
          (''doy'', Num (real_of_int (date_doy (time_start c))))]"
  using assms
  by (simp add: extractLST_area_def reduceRegion_mean_stdDev_count_def get_def Let_def)

lemma extractLST_point_record:
  assumes "select c ''LST'' = Inr (''LST'', lst)"
  shows "extractLST_point P buf c =
     Inr [(''date'', Str (format_date (time_start c))),
          (''LST'', val_of (mean_reducer (region_values P (''LST'', lst) buf scale))),
          (''year'', Num (real_of_int (date_year (time_start c)))),
          (''month'', Num (real_of_int (date_month (time_start c)))),
          (''day'', Num (real_of_int (date_day (time_start c))))]"
  using assms
  by (simp add: extractLST_point_def reduceRegion_mean_def get_def Let_def)

lemma mapE_all_Inr:
  "(\<And>x. x \<in> set xs \<Longrightarrow> \<exists>y. f x = Inr y \<and> Q x y) \<Longrightarrow>
     \<exists>ys. mapE f xs = Inr ys \<and> list_all2 (\<lambda>x y. f x = Inr y \<and> Q x y) xs ys"
proof (induction xs)
  case Nil
  show ?case by simp
next
  case (Cons x xs)
  from Cons.prems obtain y where y: "f x = Inr y" "Q x y" by auto
  from Cons.IH Cons.prems obtain ys where
    ys: "mapE f xs = Inr ys" "list_all2 (\<lambda>x y. f x = Inr y \<and> Q x y) xs ys" by auto
  from y ys show ?case by simp
qed

lemma allLandsat_has_LST:
  assumes "allLandsat P g s e thr = Inr C" and "c \<in> set C"
  shows "\<exists>lst. select c ''LST'' = Inr (''LST'', lst)"
proof -
  from assms(1) obtain A B where
    A: "landsat P ''LANDSAT/LC08/C02/T1_L2'' g s e thr = Inr A"
    and B: "landsat P ''LANDSAT/LC09/C02/T1_L2'' g s e thr = Inr B"
    and C: "C = A @ B"
    by (auto simp: allLandsat_def bindE_eq_Inr merge_def)
  from assms(2) C have "c \<in> set A \<or> c \<in> set B" by simp
  then have "\<exists>src. bindE (maskClouds src) calculateLST = Inr c"
  proof
    assume "c \<in> set A"
    from list_all2_member_right [OF A [unfolded landsat_Inr] this] show ?thesis by blast
  next
    assume "c \<in> set B"
    from list_all2_member_right [OF B [unfolded landsat_Inr] this] show ?thesis by blast
  qed
  then show ?thesis by (blast dest: processed_has_LST)
qed

text \<open>
  Claim C10. Whenever the collection is built, the extractor succeeds on every
  image of it and the time series has exactly one record for each image, in
  both tools: the number of records, before any validity filter, is the number
  of images, and the record at the position of an image is the record of that
  image, with the date of its acquisition, the aggregates of its \<open>LST\<close> band
  over the region and the parts of the date. For an image whose \<open>LST\<close> band is
  masked at every pixel of the region, the record is still there, and it holds
  the aggregate value under its key as null.
\<close>

theorem extractLST_one_record_each:
  "(allLandsat_area P geometry = Inr C \<longrightarrow>
      (\<exists>recs. lstTimeSeries_area P geometry = Inr recs \<and> length recs = length C \<and>
         list_all2 (\<lambda>c r. extractLST_area P geometry c = Inr r \<and>
            (\<exists>lst. select c ''LST'' = Inr (''LST'', lst) \<and>
               r = [(''date'', Str (format_date (time_start c))),
                    (''LST_mean'', val_of (mean_reducer (region_values P (''LST'', lst) geometry scale))),
                    (''LST_stdDev'', val_of (stdDev_reducer (region_values P (''LST'', lst) geometry scale))),
                    (''LST_count'', Num (real (length (region_values P (''LST'', lst) geometry scale)))),
                    (''year'', Num (real_of_int (date_year (time_start c)))),
                    (''month'', Num (real_of_int (date_month (time_start c)))),
                    (''day'', Num (real_of_int (date_day (time_start c)))),
                    (''doy'', Num (real_of_int (date_doy (time_start c))))] \<and>
               (list_all (\<lambda>p. \<not> valid_at lst p) (region_pixels P geometry scale) \<longrightarrow>
                  get r ''LST_mean'' = Null \<and> (''LST_mean'', Null) \<in> set r))) C recs)) \<and>
   (allLandsat_point P point = Inr C \<longrightarrow>
      (\<exists>recs. lstTimeSeries_point P point = Inr recs \<and> length recs = length C \<and>
         list_all2 (\<lambda>c r. extractLST_point P (buffer P point bufferSize) c = Inr r \<and>
            (\<exists>lst. select c ''LST'' = Inr (''LST'', lst) \<and>
               r = [(''date'', Str (format_date (time_start c))),
                    (''LST'', val_of (mean_reducer (region_values P (''LST'', lst) (buffer P point bufferSize) scale))),
                    (''year'', Num (real_of_int (date_year (time_start c)))),
                    (''month'', Num (real_of_int (date_month (time_start c)))),
                    (''day'', Num (real_of_int (date_day (time_start c))))] \<and>
               (list_all (\<lambda>p. \<not> valid_at lst p) (region_pixels P (buffer P point bufferSize) scale) \<longrightarrow>
                  get r ''LST'' = Null \<and> (''LST'', Null) \<in> set r))) C recs))"
proof (intro conjI impI)
  let ?Q = "\<lambda>c r. (\<exists>lst. select c ''LST'' = Inr (''LST'', lst) \<and>
               r = [(''date'', Str (format_date (time_start c))),
                    (''LST_mean'', val_of (mean_reducer (region_values P (''LST'', lst) geometry scale))),
                    (''LST_stdDev'', val_of (stdDev_reducer (region_values P (''LST'', lst) geometry scale))),
                    (''LST_count'', Num (real (length (region_values P (''LST'', lst) geometry scale)))),
                    (''year'', Num (real_of_int (date_year (time_start c)))),
                    (''month'', Num (real_of_int (date_month (time_start c)))),
                    (''day'', Num (real_of_int (date_day (time_start c)))),
                    (''doy'', Num (real_of_int (date_doy (time_start c))))] \<and>
               (list_all (\<lambda>p. \<not> valid_at lst p) (region_pixels P geometry scale) \<longrightarrow>
                  get r ''LST_mean'' = Null \<and> (''LST_mean'', Null) \<in> set r))"
  assume C: "allLandsat_area P geometry = Inr C"
  have "\<exists>r. extractLST_area P geometry c = Inr r \<and> ?Q c r" if "c \<in> set C" for c
  proof -
    from C that obtain lst where lst: "select c ''LST'' = Inr (''LST'', lst)"
      unfolding allLandsat_area_def by (blast dest: allLandsat_has_LST)
    let ?r = "[(''date'', Str (format_date (time_start c))),
                    (''LST_mean'', val_of (mean_reducer (region_values P (''LST'', lst) geometry scale))),
                    (''LST_stdDev'', val_of (stdDev_reducer (region_values P (''LST'', lst) geometry scale))),
                    (''LST_count'', Num (real (length (region_values P (''LST'', lst) geometry scale)))),
                    (''year'', Num (real_of_int (date_year (time_start c)))),
                    (''month'', Num (real_of_int (date_month (time_start c)))),
                    (''day'', Num (real_of_int (date_day (time_start c)))),
                    (''doy'', Num (real_of_int (date_doy (time_start c))))]"
    have "get ?r ''LST_mean'' = Null \<and> (''LST_mean'', Null) \<in> set ?r"
      if "list_all (\<lambda>p. \<not> valid_at lst p) (region_pixels P geometry scale)"
      using that by (simp add: get_def region_values_masked mean_reducer_Nil)
    with extractLST_area_record [OF lst, of P geometry] lst show ?thesis by blast
  qed
  then obtain recs where recs: "mapE (extractLST_area P geometry) C = Inr recs"
      "list_all2 (\<lambda>c r. extractLST_area P geometry c = Inr r \<and> ?Q c r) C recs"
    using mapE_all_Inr [of C "extractLST_area P geometry" ?Q] by blast
  from recs(2) have "length recs = length C" by (simp add: list_all2_lengthD)
  with recs C show "\<exists>recs. lstTimeSeries_area P geometry = Inr recs \<and> length recs = length C \<and>
         list_all2 (\<lambda>c r. extractLST_area P geometry c = Inr r \<and> ?Q c r) C recs"
    by (simp add: lstTimeSeries_area_def)
next
  let ?buf = "buffer P point bufferSize"
  let ?Q = "\<lambda>c r. (\<exists>lst. select c ''LST'' = Inr (''LST'', lst) \<and>
               r = [(''date'', Str (format_date (time_start c))),
                    (''LST'', val_of (mean_reducer (region_values P (''LST'', lst) ?buf scale))),
                    (''year'', Num (real_of_int (date_year (time_start c)))),
                    (''month'', Num (real_of_int (date_month (time_start c)))),
                    (''day'', Num (real_of_int (date_day (time_start c))))] \<and>
               (list_all (\<lambda>p. \<not> valid_at lst p) (region_pixels P ?buf scale) \<longrightarrow>
                  get r ''LST'' = Null \<and> (''LST'', Null) \<in> set r))"
  assume C: "allLandsat_point P point = Inr C"
  have "\<exists>r. extractLST_point P ?buf c = Inr r \<and> ?Q c r" if "c \<in> set C" for c
  proof -
    from C that obtain lst where lst: "select c ''LST'' = Inr (''LST'', lst)"
      unfolding allLandsat_point_def by (blast dest: allLandsat_has_LST)
    let ?r = "[(''date'', Str (format_date (time_start c))),
                    (''LST'', val_of (mean_reducer (region_values P (''LST'', lst) ?buf scale))),
                    (''year'', Num (real_of_int (date_year (time_start c)))),
                    (''month'', Num (real_of_int (date_month (time_start c)))),
                    (''day'', Num (real_of_int (date_day (time_start c))))]"
    have "get ?r ''LST'' = Null \<and> (''LST'', Null) \<in> set ?r"
      if "list_all (\<lambda>p. \<not> valid_at lst p) (region_pixels P ?buf scale)"
      using that by (simp add: get_def region_values_masked mean_reducer_Nil)
    with extractLST_point_record [OF lst, of P ?buf] lst show ?thesis by blast
  qed
  then obtain recs where recs: "mapE (extractLST_point P ?buf) C = Inr recs"
      "list_all2 (\<lambda>c r. extractLST_point P ?buf c = Inr r \<and> ?Q c r) C recs"
    using mapE_all_Inr [of C "extractLST_point P ?buf" ?Q] by blast
  from recs(2) have "length recs = length C" by (simp add: list_all2_lengthD)
  with recs C show "\<exists>recs. lstTimeSeries_point P point = Inr recs \<and> length recs = length C \<and>
         list_all2 (\<lambda>c r. extractLST_point P ?buf c = Inr r \<and> ?Q c r) C recs"
    by (simp add: lstTimeSeries_point_def)
qed

section \<open>The sample platform, evaluated\<close>

lemma selected_area_L8:
  "filter_lt_CLOUD_COVER 30 (filterDate startDate endDate
     (filterBounds sample_platform () (catalog sample_platform ''LANDSAT/LC08/C02/T1_L2''))) =
   [sample_scene, cloudy_scene]"
  by (simp add: sample_platform_def filterBounds_def filterDate_def filter_lt_CLOUD_COVER_def
     sample_scene_def cloudy_scene_def startDate_def endDate_def millis_per_day_def)

lemma selected_area_L9:
  "filter_lt_CLOUD_COVER 30 (filterDate startDate endDate
     (filterBounds sample_platform () (catalog sample_platform ''LANDSAT/LC09/C02/T1_L2''))) = []"
  by (simp add: sample_platform_def filterBounds_def filterDate_def filter_lt_CLOUD_COVER_def
     hazy_scene_def startDate_def endDate_def millis_per_day_def)

lemma selected_point_L8:
  "filter_lt_CLOUD_COVER 20 (filterDate startDate endDate
     (filterBounds sample_platform () (catalog sample_platform ''LANDSAT/LC08/C02/T1_L2''))) =
   [sample_scene, cloudy_scene]"
  by (simp add: sample_platform_def filterBounds_def filterDate_def filter_lt_CLOUD_COVER_def
     sample_scene_def cloudy_scene_def startDate_def endDate_def millis_per_day_def)

lemma selected_point_L9:
  "filter_lt_CLOUD_COVER 20 (filterDate startDate endDate
     (filterBounds sample_platform () (catalog sample_platform ''LANDSAT/LC09/C02/T1_L2''))) = []"
  by (simp add: sample_platform_def filterBounds_def filterDate_def filter_lt_CLOUD_COVER_def
     hazy_scene_def startDate_def endDate_def millis_per_day_def)

lemma sample_dates:
  "format_date (startDate + 5) = ''2014-01-01''"
  "date_year (startDate + 5) = 2014"
  "date_month (startDate + 5) = 1"
  "date_day (startDate + 5) = 1"
  "date_doy (startDate + 5) = 0"
  "format_date (startDate + 16 * millis_per_day) = ''2014-01-17''"
  "date_year (startDate + 16 * millis_per_day) = 2014"
  "date_month (startDate + 16 * millis_per_day) = 1"
  "date_day (startDate + 16 * millis_per_day) = 17"
  "date_doy (startDate + 16 * millis_per_day) = 16"
  by code_simp+

lemma sample_point_series:
  "lstTimeSeries_point sample_platform () =
     Inr [[(''date'', Str ''2014-01-01''), (''LST'', Num (- (791382729989449 / 8796093022208))), (''year'', Num 2014),
           (''month'', Num 1), (''day'', Num 1)],
          [(''date'', Str ''2014-01-17''), (''LST'', Null), (''year'', Num 2014),
           (''month'', Num 1), (''day'', Num 17)]]"
  apply (simp add: lstTimeSeries_point_def allLandsat_point_def allLandsat_def landsat_def
      selected_point_L8 selected_point_L9 merge_def)
  apply (simp add: maskClouds_def select_def bitwiseAnd_def updateMask_def calculateLST_def
      addBands_def band_names_def fresh_name_def rename_def sample_scene_def cloudy_scene_def)
  apply (simp add: extractLST_point_def select_def reduceRegion_mean_def region_values_def
      scale_def get_def List.map_filter_def subtract_def add_def multiply_def mask_on_def
      and_img_def eq_def sample_qa_def mean_reducer_def sample_platform_def sample_dates
      lst_10000_normal)
  done

lemma sample_area_series:
  "lstTimeSeries_area sample_platform () =
     Inr [[(''date'', Str ''2014-01-01''), (''LST_mean'', Num (- (791382729989449 / 8796093022208))),
           (''LST_stdDev'', Num 0), (''LST_count'', Num 1), (''year'', Num 2014),
           (''month'', Num 1), (''day'', Num 1), (''doy'', Num 0)],
          [(''date'', Str ''2014-01-17''), (''LST_mean'', Null),
           (''LST_stdDev'', Null), (''LST_count'', Num 0), (''year'', Num 2014),
           (''month'', Num 1), (''day'', Num 17), (''doy'', Num 16)]]"
  apply (simp add: lstTimeSeries_area_def allLandsat_area_def allLandsat_def landsat_def
      selected_area_L8 selected_area_L9 merge_def)
  apply (simp add: maskClouds_def select_def bitwiseAnd_def updateMask_def calculateLST_def
      addBands_def band_names_def fresh_name_def rename_def sample_scene_def cloudy_scene_def)
  apply (simp add: extractLST_area_def select_def reduceRegion_mean_stdDev_count_def
      region_values_def scale_def get_def List.map_filter_def subtract_def add_def multiply_def
      mask_on_def and_img_def eq_def sample_qa_def mean_reducer_def stdDev_reducer_def
      sample_platform_def sample_dates lst_10000_normal)
  done

text \<open>On the sample platform both tools build a collection and extract from it.\<close>

theorem extractLST_one_record_each_witness:
  "(\<exists>C. allLandsat_area sample_platform () = Inr C \<and> length C = 2 \<and>
      (\<exists>recs. lstTimeSeries_area sample_platform () = Inr recs \<and> length recs = length C \<and>
         list_all2 (\<lambda>c r. extractLST_area sample_platform () c = Inr r \<and>
            (\<exists>lst. select c ''LST'' = Inr (''LST'', lst) \<and>
               r = [(''date'', Str (format_date (time_start c))),
                    (''LST_mean'', val_of (mean_reducer (region_values sample_platform (''LST'', lst) () scale))),
                    (''LST_stdDev'', val_of (stdDev_reducer (region_values sample_platform (''LST'', lst) () scale))),
                    (''LST_count'', Num (real (length (region_values sample_platform (''LST'', lst) () scale)))),
                    (''year'', Num (real_of_int (date_year (time_start c)))),
                    (''month'', Num (real_of_int (date_month (time_start c)))),
                    (''day'', Num (real_of_int (date_day (time_start c)))),
                    (''doy'', Num (real_of_int (date_doy (time_start c))))] \<and>
               (list_all (\<lambda>p. \<not> valid_at lst p) (region_pixels sample_platform () scale) \<longrightarrow>
                  get r ''LST_mean'' = Null \<and> (''LST_mean'', Null) \<in> set r))) C recs)) \<and>
   (\<exists>C. allLandsat_point sample_platform () = Inr C \<and> length C = 2 \<and>
      (\<exists>recs. lstTimeSeries_point sample_platform () = Inr recs \<and> length recs = length C \<and>
         list_all2 (\<lambda>c r. extractLST_point sample_platform (buffer sample_platform () bufferSize) c = Inr r \<and>
            (\<exists>lst. select c ''LST'' = Inr (''LST'', lst) \<and>
               r = [(''date'', Str (format_date (time_start c))),
                    (''LST'', val_of (mean_reducer (region_values sample_platform (''LST'', lst) (buffer sample_platform () bufferSize) scale))),
                    (''year'', Num (real_of_int (date_year (time_start c)))),
                    (''month'', Num (real_of_int (date_month (time_start c)))),
                    (''day'', Num (real_of_int (date_day (time_start c))))] \<and>
               (list_all (\<lambda>p. \<not> valid_at lst p) (region_pixels sample_platform (buffer sample_platform () bufferSize) scale) \<longrightarrow>
                  get r ''LST'' = Null \<and> (''LST'', Null) \<in> set r))) C recs))"
proof -
  obtain Ca where Ca: "allLandsat_area sample_platform () = Inr Ca"
    using sample_area_series by (auto simp: lstTimeSeries_area_def bindE_eq_Inr)
  obtain Cp where Cp: "allLandsat_point sample_platform () = Inr Cp"
    using sample_point_series by (auto simp: lstTimeSeries_point_def bindE_eq_Inr)
  from extractLST_one_record_each [of sample_platform "()" Ca "()"] Ca
  obtain ra where ra: "lstTimeSeries_area sample_platform () = Inr ra" "length ra = length Ca"
    "list_all2 (\<lambda>c r. extractLST_area sample_platform () c = Inr r \<and>
            (\<exists>lst. select c ''LST'' = Inr (''LST'', lst) \<and>
               r = [(''date'', Str (format_date (time_start c))),
                    (''LST_mean'', val_of (mean_reducer (region_values sample_platform (''LST'', lst) () scale))),
                    (''LST_stdDev'', val_of (stdDev_reducer (region_values sample_platform (''LST'', lst) () scale))),
                    (''LST_count'', Num (real (length (region_values sample_platform (''LST'', lst) () scale)))),
                    (''year'', Num (real_of_int (date_year (time_start c)))),
                    (''month'', Num (real_of_int (date_month (time_start c)))),
                    (''day'', Num (real_of_int (date_day (time_start c)))),
                    (''doy'', Num (real_of_int (date_doy (time_start c))))] \<and>
               (list_all (\<lambda>p. \<not> valid_at lst p) (region_pixels sample_platform () scale) \<longrightarrow>
                  get r ''LST_mean'' = Null \<and> (''LST_mean'', Null) \<in> set r))) Ca ra"
    by blast
  from extractLST_one_record_each [of sample_platform "()" Cp "()"] Cp
  obtain rp where rp: "lstTimeSeries_point sample_platform () = Inr rp" "length rp = length Cp"
    "list_all2 (\<lambda>c r. extractLST_point sample_platform (buffer sample_platform () bufferSize) c = Inr r \<and>
            (\<exists>lst. select c ''LST'' = Inr (''LST'', lst) \<and>
               r = [(''date'', Str (format_date (time_start c))),
                    (''LST'', val_of (mean_reducer (region_values sample_platform (''LST'', lst) (buffer sample_platform () bufferSize) scale))),
                    (''year'', Num (real_of_int (date_year (time_start c)))),
                    (''month'', Num (real_of_int (date_month (time_start c)))),
                    (''day'', Num (real_of_int (date_day (time_start c))))] \<and>
               (list_all (\<lambda>p. \<not> valid_at lst p) (region_pixels sample_platform (buffer sample_platform () bufferSize) scale) \<longrightarrow>
                  get r ''LST'' = Null \<and> (''LST'', Null) \<in> set r))) Cp rp"
    by blast
  from ra(1,2) have la: "length Ca = 2" by (auto simp: sample_area_series)
  from rp(1,2) have lp: "length Cp = 2" by (auto simp: sample_point_series)
  from Ca la ra have "\<exists>C. allLandsat_area sample_platform () = Inr C \<and> length C = 2 \<and>
      (\<exists>recs. lstTimeSeries_area sample_platform () = Inr recs \<and> length recs = length C \<and>
         list_all2 (\<lambda>c r. extractLST_area sample_platform () c = Inr r \<and>
            (\<exists>lst. select c ''LST'' = Inr (''LST'', lst) \<and>
               r = [(''date'', Str (format_date (time_start c))),
                    (''LST_mean'', val_of (mean_reducer (region_values sample_platform (''LST'', lst) () scale))),
                    (''LST_stdDev'', val_of (stdDev_reducer (region_values sample_platform (''LST'', lst) () scale))),
                    (''LST_count'', Num (real (length (region_values sample_platform (''LST'', lst) () scale)))),
                    (''year'', Num (real_of_int (date_year (time_start c)))),
                    (''month'', Num (real_of_int (date_month (time_start c)))),
                    (''day'', Num (real_of_int (date_day (time_start c)))),
                    (''doy'', Num (real_of_int (date_doy (time_start c))))] \<and>
               (list_all (\<lambda>p. \<not> valid_at lst p) (region_pixels sample_platform () scale) \<longrightarrow>
                  get r ''LST_mean'' = Null \<and> (''LST_mean'', Null) \<in> set r))) C recs)"
    by blast
  moreover from Cp lp rp have "\<exists>C. allLandsat_point sample_platform () = Inr C \<and> length C = 2 \<and>
      (\<exists>recs. lstTimeSeries_point sample_platform () = Inr recs \<and> length recs = length C \<and>
         list_all2 (\<lambda>c r. extractLST_point sample_platform (buffer sample_platform () bufferSize) c = Inr r \<and>
            (\<exists>lst. select c ''LST'' = Inr (''LST'', lst) \<and>
               r = [(''date'', Str (format_date (time_start c))),
                    (''LST'', val_of (mean_reducer (region_values sample_platform (''LST'', lst) (buffer sample_platform () bufferSize) scale))),
                    (''year'', Num (real_of_int (date_year (time_start c)))),
                    (''month'', Num (real_of_int (date_month (time_start c)))),
                    (''day'', Num (real_of_int (date_day (time_start c))))] \<and>
               (list_all (\<lambda>p. \<not> valid_at lst p) (region_pixels sample_platform (buffer sample_platform () bufferSize) scale) \<longrightarrow>
                  get r ''LST'' = Null \<and> (''LST'', Null) \<in> set r))) C recs)"
    by blast
  ultimately show ?thesis by (rule conjI)
qed

text \<open>
  On the sample platform, with the threshold 30 of the area tool, the first
  sample scene is in the collection and the scene of cloud cover 30 is not.
\<close>

theorem allLandsat_members_witness:
  "\<exists>C. allLandsat sample_platform () startDate endDate 30 = Inr C \<and>
     (\<exists>c \<in> set C. bindE (maskClouds sample_scene) calculateLST = Inr c) \<and>
     \<not> (\<exists>c \<in> set C. bindE (maskClouds hazy_scene) calculateLST = Inr c)"
proof -
  obtain C where C: "allLandsat sample_platform () startDate endDate 30 = Inr C"
    using sample_area_series
    by (auto simp: lstTimeSeries_area_def allLandsat_area_def bindE_eq_Inr)
  from allLandsat_members [OF C] have iff:
    "\<forall>img \<in> set (catalog sample_platform ''LANDSAT/LC08/C02/T1_L2'') \<union>
              set (catalog sample_platform ''LANDSAT/LC09/C02/T1_L2'').
        (\<exists>c \<in> set C. bindE (maskClouds img) calculateLST = Inr c) =
        (intersects sample_platform () (footprint img) \<and> startDate \<le> time_start img \<and>
         time_start img < endDate \<and> cloud_cover img < 30)"
    by blast
  have "sample_scene \<in> set (catalog sample_platform ''LANDSAT/LC08/C02/T1_L2'') \<union>
              set (catalog sample_platform ''LANDSAT/LC09/C02/T1_L2'')"
    and "hazy_scene \<in> set (catalog sample_platform ''LANDSAT/LC08/C02/T1_L2'') \<union>
              set (catalog sample_platform ''LANDSAT/LC09/C02/T1_L2'')"
    by (simp_all add: sample_platform_def)
  with iff have
    "(\<exists>c \<in> set C. bindE (maskClouds sample_scene) calculateLST = Inr c) =
        (intersects sample_platform () (footprint sample_scene) \<and> startDate \<le> time_start sample_scene \<and>
         time_start sample_scene < endDate \<and> cloud_cover sample_scene < 30)"
    "(\<exists>c \<in> set C. bindE (maskClouds hazy_scene) calculateLST = Inr c) =
        (intersects sample_platform () (footprint hazy_scene) \<and> startDate \<le> time_start hazy_scene \<and>
         time_start hazy_scene < endDate \<and> cloud_cover hazy_scene < 30)"
    by blast+
  moreover have "intersects sample_platform () (footprint sample_scene) \<and> startDate \<le> time_start sample_scene \<and>
         time_start sample_scene < endDate \<and> cloud_cover sample_scene < 30"
    by (simp add: sample_platform_def sample_scene_def startDate_def endDate_def millis_per_day_def)
  moreover have "\<not> cloud_cover hazy_scene < 30"
    by (simp add: hazy_scene_def)
  ultimately show ?thesis using C by blast
qed

section \<open>Reducers: what the running totals compute\<close>
















section \<open>The aggregator: properties\<close>

lemma numbers_Nil: "numbers [] = []"
  by (simp add: numbers_def List.map_filter_simps)

lemma numbers_Cons:
  "numbers (v # vs) = (case v of Num x \<Rightarrow> x # numbers vs | _ \<Rightarrow> numbers vs)"
  by (cases v) (simp_all add: numbers_def List.map_filter_simps)


lemma numbers_filter_neq:
  "numbers (aggregate_array (filter_neq k Null ts) k) = numbers (aggregate_array ts k)"
  by (induction ts)
    (auto simp: aggregate_array_def filter_neq_def numbers_Nil numbers_Cons split: val.splits)








lemma empty_reducers:
  "mean_reducer [] = None" "min_reducer [] = None" "max_reducer [] = None"
  "stdDev_reducer [] = None" "median_reducer [] = None"
  by (simp_all add: mean_reducer_def min_reducer_def max_reducer_def stdDev_reducer_def
      median_reducer_def)

lemma empty_bucket:
  "size_of (removeAll_list (aggregate_array [] k) [Null]) = Num 0"
  "reduce (removeAll_list (aggregate_array [] k) [Null]) mean_reducer = Null"
  "reduce (removeAll_list (aggregate_array [] k) [Null]) min_reducer = Null"
  "reduce (removeAll_list (aggregate_array [] k) [Null]) max_reducer = Null"
  "reduce (removeAll_list (aggregate_array [] k) [Null]) stdDev_reducer = Null"
  "reduce (removeAll_list (aggregate_array [] k) [Null]) median_reducer = Null"
  by (simp_all add: size_of_def reduce_def removeAll_list_def aggregate_array_def numbers_Nil
      empty_reducers)

lemma lstTimeSeries_empty:
  "lstTimeSeries_area empty_platform g = Inr []" "lstTimeSeries_point empty_platform g = Inr []"
  by (simp_all add: lstTimeSeries_area_def lstTimeSeries_point_def allLandsat_area_def
      allLandsat_point_def allLandsat_def landsat_def empty_platform_def filterBounds_def
      filterDate_def filter_lt_CLOUD_COVER_def merge_def)

text \<open>
  Claim C5. With no record at all, the overall statistics of both tools have
  the count 0 and null for the mean, the minimum and the maximum (and for the
  standard deviation and the median). A month, year or season bucket that
  receives no record gives a row with count 0 and null statistics, and so does a
  year of the point tool. The results are ordinary values: on a platform with
  no scene both tools return their report and fail nowhere. Null is a value of
  its own; no quotient by the count 0 is ever formed.
\<close>

theorem empty_input_statistics:
  "stats_area (validTimeSeries []) =
     [(''count'', Num 0), (''mean'', Null), (''min'', Null), (''max'', Null), (''std'', Null),
      (''median'', Null)] \<and>
   stats_point [] =
     [(''count'', Num 0), (''mean'', Null), (''min'', Null), (''max'', Null), (''std'', Null)] \<and>
   (\<forall>i < length months. monthData valid (months ! i) = [] \<longrightarrow>
      monthlyStats valid ! i =
        [(''month'', months ! i), (''count'', Num 0), (''mean_LST'', Null), (''min_LST'', Null),
         (''max_LST'', Null)]) \<and>
   (\<forall>i < length years. yearData valid (years ! i) = [] \<longrightarrow>
      yearlyLST_area valid ! i =
        [(''year'', years ! i), (''count'', Num 0), (''yearly_mean_LST'', Null),
         (''yearly_min_LST'', Null), (''yearly_max_LST'', Null)]) \<and>
   (\<forall>i < length seasons. seasonData valid (seasons ! i) = [] \<longrightarrow>
      seasonalStats valid ! i =
        [(''name'', Str (fst (seasons ! i))), (''Count'', Num 0), (''Mean LST'', Null),
         (''Min LST'', Null), (''Max LST'', Null)]) \<and>
   (\<forall>i < length years. yearData ps (years ! i) = [] \<longrightarrow>
      yearlyLST_point ps ! i = [(''year'', years ! i), (''yearly_mean_LST'', Null)]) \<and>
   (\<exists>report. analyzeLSTForArea empty_platform g = Inr report \<and>
      timeSeries report = [] \<and> overall report = stats_area []) \<and>
   (\<exists>report. analyzeLSTAtPoint empty_platform g = Inr report \<and>
      series report = [] \<and> statistics report = stats_point [])"
proof (intro conjI allI impI)
  show "stats_area (validTimeSeries []) =
     [(''count'', Num 0), (''mean'', Null), (''min'', Null), (''max'', Null), (''std'', Null),
      (''median'', Null)]"
    by (simp add: stats_area_def validTimeSeries_def filter_neq_def Let_def empty_bucket)
  show "stats_point [] =
     [(''count'', Num 0), (''mean'', Null), (''min'', Null), (''max'', Null), (''std'', Null)]"
    by (simp add: stats_point_def Let_def empty_bucket)
next
  fix i assume "i < length months" "monthData valid (months ! i) = []"
  then show "monthlyStats valid ! i =
        [(''month'', months ! i), (''count'', Num 0), (''mean_LST'', Null), (''min_LST'', Null),
         (''max_LST'', Null)]"
    by (simp add: monthlyStats_def Let_def empty_bucket)
next
  fix i assume "i < length years" "yearData valid (years ! i) = []"
  then show "yearlyLST_area valid ! i =
        [(''year'', years ! i), (''count'', Num 0), (''yearly_mean_LST'', Null),
         (''yearly_min_LST'', Null), (''yearly_max_LST'', Null)]"
    by (simp add: yearlyLST_area_def Let_def empty_bucket)
next
  fix i assume "i < length seasons" "seasonData valid (seasons ! i) = []"
  then show "seasonalStats valid ! i =
        [(''name'', Str (fst (seasons ! i))), (''Count'', Num 0), (''Mean LST'', Null),
         (''Min LST'', Null), (''Max LST'', Null)]"
    by (simp add: seasonalStats_def Let_def empty_bucket)
next
  fix i assume "i < length years" "yearData ps (years ! i) = []"
  then show "yearlyLST_point ps ! i = [(''year'', years ! i), (''yearly_mean_LST'', Null)]"
    by (simp add: yearlyLST_point_def aggregate_mean_def reduce_def aggregate_array_def
        numbers_Nil empty_reducers)
next
  show "\<exists>report. analyzeLSTForArea empty_platform g = Inr report \<and>
      timeSeries report = [] \<and> overall report = stats_area []"
    by (simp add: analyzeLSTForArea_def lstTimeSeries_empty validTimeSeries_def filter_neq_def)
  show "\<exists>report. analyzeLSTAtPoint empty_platform g = Inr report \<and>
      series report = [] \<and> statistics report = stats_point []"
    by (simp add: analyzeLSTAtPoint_def lstTimeSeries_empty)
qed

lemma months_list:
  "months = [Num 1, Num 2, Num 3, Num 4, Num 5, Num 6, Num 7, Num 8, Num 9, Num 10, Num 11, Num 12]"
  by (simp add: months_def sequence_def upt_rec)

lemma years_list:
  "years = [Num 2014, Num 2015, Num 2016, Num 2017, Num 2018, Num 2019, Num 2020, Num 2021,
            Num 2022, Num 2023]"
  by (simp add: years_def sequence_def)

lemma sample_buckets:
  "monthData (validTimeSeries sample_records) (months ! 1) = []"
  "yearData (validTimeSeries sample_records) (years ! 2) = []"
  "seasonData (validTimeSeries sample_records) (seasons ! 1) = []"
  "yearData sample_point_records (years ! 2) = []"
  by (simp_all add: monthData_def yearData_def seasonData_def validTimeSeries_def filter_neq_def
      filter_eq_def filter_inList_def sample_records_def sample_point_records_def get_def
      months_list years_list seasons_def)

text \<open>
  The sample records have nothing in February, in 2016 and in spring.
\<close>

theorem empty_input_statistics_witness:
  "monthlyStats (validTimeSeries sample_records) ! 1 =
        [(''month'', Num 2), (''count'', Num 0), (''mean_LST'', Null), (''min_LST'', Null),
         (''max_LST'', Null)] \<and>
   yearlyLST_area (validTimeSeries sample_records) ! 2 =
        [(''year'', Num 2016), (''count'', Num 0), (''yearly_mean_LST'', Null),
         (''yearly_min_LST'', Null), (''yearly_max_LST'', Null)] \<and>
   seasonalStats (validTimeSeries sample_records) ! 1 =
        [(''name'', Str ''Spring (Mar-May)''), (''Count'', Num 0), (''Mean LST'', Null),
         (''Min LST'', Null), (''Max LST'', Null)] \<and>
   yearlyLST_point sample_point_records ! 2 = [(''year'', Num 2016), (''yearly_mean_LST'', Null)]"
proof -
  have l: "1 < length months" "2 < length years" "1 < length seasons"
    by (simp_all add: months_list years_list seasons_def)
  have v: "months ! 1 = Num 2" "years ! 2 = Num 2016" "fst (seasons ! 1) = ''Spring (Mar-May)''"
    by (simp_all add: months_list years_list seasons_def)
  from empty_input_statistics [of "validTimeSeries sample_records" sample_point_records "()"]
    sample_buckets l
  have "monthlyStats (validTimeSeries sample_records) ! 1 =
        [(''month'', months ! 1), (''count'', Num 0), (''mean_LST'', Null), (''min_LST'', Null),
         (''max_LST'', Null)]"
    and "yearlyLST_area (validTimeSeries sample_records) ! 2 =
        [(''year'', years ! 2), (''count'', Num 0), (''yearly_mean_LST'', Null),
         (''yearly_min_LST'', Null), (''yearly_max_LST'', Null)]"
    and "seasonalStats (validTimeSeries sample_records) ! 1 =
        [(''name'', Str (fst (seasons ! 1))), (''Count'', Num 0), (''Mean LST'', Null),
         (''Min LST'', Null), (''Max LST'', Null)]"
    and "yearlyLST_point sample_point_records ! 2 =
        [(''year'', years ! 2), (''yearly_mean_LST'', Null)]"
    by blast+
  then show ?thesis by (simp only: v)
qed

section \<open>The aggregator: buckets\<close>

lemma sum_indicator:
  "(\<Sum>k\<leftarrow>ks. if Q k then 1 else 0 :: nat) = length (filter Q ks)"
  by (induction ks) simp_all

lemma unique_in_distinct:
  assumes "distinct ks" and "\<exists>!k. k \<in> set ks \<and> Q k"
  shows "length (filter Q ks) = 1"
proof -
  from assms(2) obtain k where k: "k \<in> set ks" "Q k" "\<And>j. j \<in> set ks \<Longrightarrow> Q j \<Longrightarrow> j = k"
    by blast
  then have "{x. Q x} \<inter> set ks = {k}" by blast
  with assms(1) show ?thesis by (simp add: distinct_length_filter)
qed

lemma bucket_sum:
  assumes "distinct ks" and "\<forall>x \<in> set xs. \<exists>!k. k \<in> set ks \<and> P k x"
  shows "(\<Sum>k\<leftarrow>ks. length (filter (P k) xs)) = length xs"
  using assms(2)
proof (induction xs)
  case Nil
  show ?case by simp
next
  case (Cons x xs)
  have "(\<Sum>k\<leftarrow>ks. length (filter (P k) (x # xs))) =
      (\<Sum>k\<leftarrow>ks. (if P k x then 1 else 0) + length (filter (P k) xs))"
    by (rule arg_cong [where f = sum_list]) simp
  also have "\<dots> = (\<Sum>k\<leftarrow>ks. if P k x then 1 else 0) + (\<Sum>k\<leftarrow>ks. length (filter (P k) xs))"
    by (rule sum_list_addf)
  also have "(\<Sum>k\<leftarrow>ks. if P k x then 1 else 0 :: nat) = 1"
    using Cons.prems assms(1) by (simp add: sum_indicator unique_in_distinct)
  also have "(\<Sum>k\<leftarrow>ks. length (filter (P k) xs)) = length xs"
    using Cons by simp
  finally show ?case by simp
qed

lemma distinct_buckets: "distinct months" "distinct years" "distinct seasons"
  by (simp_all add: months_list years_list seasons_def)

lemma seasons_cases:
  "s \<in> set seasons \<Longrightarrow>
     snd s = [Num 12, Num 1, Num 2] \<and> s = seasons ! 0 \<or>
     snd s = [Num 3, Num 4, Num 5] \<and> s = seasons ! 1 \<or>
     snd s = [Num 6, Num 7, Num 8] \<and> s = seasons ! 2 \<or>
     snd s = [Num 9, Num 10, Num 11] \<and> s = seasons ! 3"
  apply (simp add: seasons_def)
  apply (elim disjE)
     apply simp_all
  done

lemma seasons_members:
  "seasons ! 0 \<in> set seasons" "seasons ! 1 \<in> set seasons"
  "seasons ! 2 \<in> set seasons" "seasons ! 3 \<in> set seasons"
  "snd (seasons ! 0) = [Num 12, Num 1, Num 2]" "snd (seasons ! 1) = [Num 3, Num 4, Num 5]"
  "snd (seasons ! 2) = [Num 6, Num 7, Num 8]" "snd (seasons ! 3) = [Num 9, Num 10, Num 11]"
  by (simp_all add: seasons_def)

lemma season_unique:
  assumes "v \<in> set months"
  shows "\<exists>!s. s \<in> set seasons \<and> v \<in> set (snd s)"
proof -
  from assms consider
      "v = Num 12 \<or> v = Num 1 \<or> v = Num 2" | "v = Num 3 \<or> v = Num 4 \<or> v = Num 5"
    | "v = Num 6 \<or> v = Num 7 \<or> v = Num 8" | "v = Num 9 \<or> v = Num 10 \<or> v = Num 11"
    unfolding months_list by (simp only: set_simps insert_iff empty_iff) blast
  then show ?thesis
  proof cases
    case 1
    show ?thesis
    proof (rule ex1I [of _ "seasons ! 0"])
      show "seasons ! 0 \<in> set seasons \<and> v \<in> set (snd (seasons ! 0))"
        using 1 by (simp only: seasons_members) simp
      fix s assume "s \<in> set seasons \<and> v \<in> set (snd s)"
      then have mem: "s \<in> set seasons" and vin: "v \<in> set (snd s)" by simp_all
      from seasons_cases [OF mem] 1 vin show "s = seasons ! 0"
        apply -
        apply (elim disjE conjE)
                   apply simp_all
        done
    qed
  next
    case 2
    show ?thesis
    proof (rule ex1I [of _ "seasons ! 1"])
      show "seasons ! 1 \<in> set seasons \<and> v \<in> set (snd (seasons ! 1))"
        using 2 by (simp only: seasons_members) simp
      fix s assume "s \<in> set seasons \<and> v \<in> set (snd s)"
      then have mem: "s \<in> set seasons" and vin: "v \<in> set (snd s)" by simp_all
      from seasons_cases [OF mem] 2 vin show "s = seasons ! 1"
        apply -
        apply (elim disjE conjE)
                   apply simp_all
        done
    qed
  next
    case 3
    show ?thesis
    proof (rule ex1I [of _ "seasons ! 2"])
      show "seasons ! 2 \<in> set seasons \<and> v \<in> set (snd (seasons ! 2))"
        using 3 by (simp only: seasons_members) simp
      fix s assume "s \<in> set seasons \<and> v \<in> set (snd s)"
      then have mem: "s \<in> set seasons" and vin: "v \<in> set (snd s)" by simp_all
      from seasons_cases [OF mem] 3 vin show "s = seasons ! 2"
        apply -
        apply (elim disjE conjE)
                   apply simp_all
        done
    qed
  next
    case 4
    show ?thesis
    proof (rule ex1I [of _ "seasons ! 3"])
      show "seasons ! 3 \<in> set seasons \<and> v \<in> set (snd (seasons ! 3))"
        using 4 by (simp only: seasons_members) simp
      fix s assume "s \<in> set seasons \<and> v \<in> set (snd s)"
      then have mem: "s \<in> set seasons" and vin: "v \<in> set (snd s)" by simp_all
      from seasons_cases [OF mem] 4 vin show "s = seasons ! 3"
        apply -
        apply (elim disjE conjE)
                   apply simp_all
        done
    qed
  qed
qed

lemma valid_not_Null: "r \<in> set (validTimeSeries ts) \<Longrightarrow> get r ''LST_mean'' \<noteq> Null"
  by (simp add: validTimeSeries_def filter_neq_def)

lemma size_of_bucket:
  assumes "\<forall>r \<in> set rs. get r k \<noteq> Null"
  shows "size_of (removeAll_list (aggregate_array rs k) [Null]) = Num (real (length rs))"
proof -
  have "filter (\<lambda>x. x \<noteq> Null) (map (\<lambda>f. get f k) rs) = map (\<lambda>f. get f k) rs"
    using assms by (simp add: filter_id_conv)
  then show ?thesis by (simp add: size_of_def removeAll_list_def aggregate_array_def)
qed

lemma bucket_subsets:
  "set (monthData V m) \<subseteq> set V" "set (yearData V y) \<subseteq> set V" "set (seasonData V s) \<subseteq> set V"
  by (auto simp: monthData_def yearData_def seasonData_def filter_eq_def filter_inList_def)

lemma bucket_partition:
  assumes "\<forall>r \<in> set V. get r ''LST_mean'' \<noteq> Null"
    and "\<forall>r \<in> set V. get r ''month'' \<in> set months \<and> get r ''year'' \<in> set years"
  shows "(\<forall>r \<in> set V.
            (\<exists>!m. m \<in> set months \<and> r \<in> set (monthData V m)) \<and>
            (\<exists>!y. y \<in> set years \<and> r \<in> set (yearData V y)) \<and>
            (\<exists>!s. s \<in> set seasons \<and> r \<in> set (seasonData V s))) \<and>
         length months = 12 \<and> length years = 10 \<and> length seasons = 4 \<and>
         map (\<lambda>row. get row ''count'') (monthlyStats V) =
           map (\<lambda>m. Num (real (length (monthData V m)))) months \<and>
         (\<Sum>m\<leftarrow>months. length (monthData V m)) = length V \<and>
         map (\<lambda>row. get row ''count'') (yearlyLST_area V) =
           map (\<lambda>y. Num (real (length (yearData V y)))) years \<and>
         (\<Sum>y\<leftarrow>years. length (yearData V y)) = length V \<and>
         map (\<lambda>row. get row ''Count'') (seasonalStats V) =
           map (\<lambda>s. Num (real (length (seasonData V s)))) seasons \<and>
         (\<Sum>s\<leftarrow>seasons. length (seasonData V s)) = length V"
proof -
  let ?V = V
  have nn: "\<forall>r \<in> set rs. get r ''LST_mean'' \<noteq> Null" if "set rs \<subseteq> set ?V" for rs
    using that assms(1) by blast
  have um: "\<exists>!m. m \<in> set months \<and> r \<in> set (monthData ?V m)" if "r \<in> set ?V" for r
    using that assms(2) by (auto simp: monthData_def filter_eq_def)
  have uy: "\<exists>!y. y \<in> set years \<and> r \<in> set (yearData ?V y)" if "r \<in> set ?V" for r
    using that assms(2) by (auto simp: yearData_def filter_eq_def)
  have us: "\<exists>!s. s \<in> set seasons \<and> r \<in> set (seasonData ?V s)" if "r \<in> set ?V" for r
  proof -
    from that assms(2) have "get r ''month'' \<in> set months" by blast
    from season_unique [OF this] that show ?thesis
      by (simp add: seasonData_def filter_inList_def)
  qed
  have cm: "map (\<lambda>row. get row ''count'') (monthlyStats ?V) =
      map (\<lambda>m. Num (real (length (monthData ?V m)))) months"
    by (simp add: monthlyStats_def Let_def get_def size_of_bucket [OF nn [OF bucket_subsets(1)]])
  have cy: "map (\<lambda>row. get row ''count'') (yearlyLST_area ?V) =
      map (\<lambda>y. Num (real (length (yearData ?V y)))) years"
    by (simp add: yearlyLST_area_def Let_def get_def size_of_bucket [OF nn [OF bucket_subsets(2)]])
  have cs: "map (\<lambda>row. get row ''Count'') (seasonalStats ?V) =
      map (\<lambda>s. Num (real (length (seasonData ?V s)))) seasons"
    by (simp add: seasonalStats_def Let_def get_def size_of_bucket [OF nn [OF bucket_subsets(3)]])
  have sm: "(\<Sum>m\<leftarrow>months. length (monthData ?V m)) = length ?V"
    unfolding monthData_def filter_eq_def
    by (rule bucket_sum [OF distinct_buckets(1)]) (use um in \<open>simp add: monthData_def filter_eq_def\<close>)
  have sy: "(\<Sum>y\<leftarrow>years. length (yearData ?V y)) = length ?V"
    unfolding yearData_def filter_eq_def
    by (rule bucket_sum [OF distinct_buckets(2)]) (use uy in \<open>simp add: yearData_def filter_eq_def\<close>)
  have ss: "(\<Sum>s\<leftarrow>seasons. length (seasonData ?V s)) = length ?V"
    unfolding seasonData_def filter_inList_def
    by (rule bucket_sum [OF distinct_buckets(3)])
      (use us in \<open>simp add: seasonData_def filter_inList_def\<close>)
  have len: "length months = 12" "length years = 10" "length seasons = 4"
    by (simp_all add: months_list years_list seasons_def)
  from um uy us len cm sm cy sy cs ss show ?thesis by blast
qed

text \<open>
  Claim C6. Take the records that the validity filter of the area tool keeps,
  and let every one of them have a month among 1 to 12 and a year among 2014 to
  2023. Then every record is in the bucket of exactly one of the 12 months, of
  exactly one of the 10 years and of exactly one of the 4 seasons (Winter: 12,
  1, 2; Spring: 3, 4, 5; Monsoon: 6, 7, 8; Post-Monsoon: 9, 10, 11). The count
  that each monthly, yearly and seasonal row reports is the size of its bucket,
  and for each of the three groupings the sizes add up to the number of valid
  records.
\<close>

theorem bucket_counts:
  assumes "\<forall>r \<in> set (validTimeSeries ts). get r ''month'' \<in> set months \<and> get r ''year'' \<in> set years"
  shows "(\<forall>r \<in> set (validTimeSeries ts).
            (\<exists>!m. m \<in> set months \<and> r \<in> set (monthData (validTimeSeries ts) m)) \<and>
            (\<exists>!y. y \<in> set years \<and> r \<in> set (yearData (validTimeSeries ts) y)) \<and>
            (\<exists>!s. s \<in> set seasons \<and> r \<in> set (seasonData (validTimeSeries ts) s))) \<and>
         length months = 12 \<and> length years = 10 \<and> length seasons = 4 \<and>
         map (\<lambda>row. get row ''count'') (monthlyStats (validTimeSeries ts)) =
           map (\<lambda>m. Num (real (length (monthData (validTimeSeries ts) m)))) months \<and>
         (\<Sum>m\<leftarrow>months. length (monthData (validTimeSeries ts) m)) = length (validTimeSeries ts) \<and>
         map (\<lambda>row. get row ''count'') (yearlyLST_area (validTimeSeries ts)) =
           map (\<lambda>y. Num (real (length (yearData (validTimeSeries ts) y)))) years \<and>
         (\<Sum>y\<leftarrow>years. length (yearData (validTimeSeries ts) y)) = length (validTimeSeries ts) \<and>
         map (\<lambda>row. get row ''Count'') (seasonalStats (validTimeSeries ts)) =
           map (\<lambda>s. Num (real (length (seasonData (validTimeSeries ts) s)))) seasons \<and>
         (\<Sum>s\<leftarrow>seasons. length (seasonData (validTimeSeries ts) s)) = length (validTimeSeries ts)"
proof (rule bucket_partition)
  show "\<forall>r \<in> set (validTimeSeries ts). get r ''LST_mean'' \<noteq> Null"
    by (simp add: valid_not_Null)
  show "\<forall>r \<in> set (validTimeSeries ts).
      get r ''month'' \<in> set months \<and> get r ''year'' \<in> set years"
    by (rule assms)
qed

text \<open>The sample records: three are valid, and each grouping counts three.\<close>

theorem bucket_counts_witness:
  "length (validTimeSeries sample_records) = 3 \<and>
   (\<Sum>m\<leftarrow>months. length (monthData (validTimeSeries sample_records) m)) = 3 \<and>
   (\<Sum>y\<leftarrow>years. length (yearData (validTimeSeries sample_records) y)) = 3 \<and>
   (\<Sum>s\<leftarrow>seasons. length (seasonData (validTimeSeries sample_records) s)) = 3"
proof -
  have v: "validTimeSeries sample_records =
     [[(''date'', Str ''2014-01-05''), (''LST_mean'', Num 20), (''LST_stdDev'', Num 1),
       (''LST_count'', Num 4), (''year'', Num 2014), (''month'', Num 1), (''day'', Num 5),
       (''doy'', Num 4)],
      [(''date'', Str ''2014-07-16''), (''LST_mean'', Num 25), (''LST_stdDev'', Num 2),
       (''LST_count'', Num 4), (''year'', Num 2014), (''month'', Num 7), (''day'', Num 16),
       (''doy'', Num 196)],
      [(''date'', Str ''2015-12-24''), (''LST_mean'', Num 30), (''LST_stdDev'', Num 1),
       (''LST_count'', Num 3), (''year'', Num 2015), (''month'', Num 12), (''day'', Num 24),
       (''doy'', Num 357)]]"
    by (simp add: validTimeSeries_def filter_neq_def sample_records_def get_def)
  have h: "\<forall>r \<in> set (validTimeSeries sample_records).
      get r ''month'' \<in> set months \<and> get r ''year'' \<in> set years"
    unfolding v by (simp add: get_def months_list years_list)
  have l: "length (validTimeSeries sample_records) = 3"
    unfolding v by simp
  from bucket_counts [OF h] l show ?thesis by simp
qed

section \<open>The aggregator: which records a grouping reads\<close>

lemma removeAll_Null_filter_neq:
  "removeAll_list (aggregate_array ps k) [Null] = aggregate_array (filter_neq k Null ps) k"
  by (induction ps) (simp_all add: removeAll_list_def aggregate_array_def filter_neq_def)

lemma removeAll_Null_idem:
  "removeAll_list (removeAll_list vs [Null]) [Null] = removeAll_list vs [Null]"
  by (simp add: removeAll_list_def)

lemma stats_point_filtered:
  "stats_point (filter_neq ''LST'' Null ps) = stats_point ps"
  by (simp add: stats_point_def Let_def removeAll_Null_filter_neq [symmetric] removeAll_Null_idem)

lemma aggregate_mean_filtered:
  "aggregate_mean (yearData (filter_neq ''LST'' Null ps) y) ''LST'' =
     aggregate_mean (yearData ps y) ''LST''"
proof -
  have "yearData (filter_neq ''LST'' Null ps) y = filter_neq ''LST'' Null (yearData ps y)"
    by (induction ps) (simp_all add: yearData_def filter_eq_def filter_neq_def)
  then show ?thesis
    by (simp add: aggregate_mean_def reduce_def numbers_filter_neq)
qed

lemma yearlyLST_point_filtered:
  "yearlyLST_point (filter_neq ''LST'' Null ps) = yearlyLST_point ps"
  by (simp add: yearlyLST_point_def aggregate_mean_filtered)

text \<open>
  Claim C4, as amended. The area tool discards the records whose aggregate value
  is null first: its report holds the filtered series, and the overall, monthly,
  yearly and seasonal statistics are all computed from that one filtered series.
  No record of the filtered series, and so none of any month, year or season
  bucket drawn from it, has a null aggregate value. The point tool discards no
  record: its yearly grouping reads the unfiltered series, and nulls are dropped
  from the values only. Its overall statistics and its yearly rows are those of
  the null-filtered series all the same.
\<close>

theorem groupings_read_filtered_records:
  "(analyzeLSTForArea P geometry = Inr report \<longrightarrow>
      (\<exists>lstTimeSeries. lstTimeSeries_area P geometry = Inr lstTimeSeries \<and>
         timeSeries report = validTimeSeries lstTimeSeries \<and>
         overall report = stats_area (validTimeSeries lstTimeSeries) \<and>
         monthly report = monthlyStats (validTimeSeries lstTimeSeries) \<and>
         yearly report = yearlyLST_area (validTimeSeries lstTimeSeries) \<and>
         seasonal report = seasonalStats (validTimeSeries lstTimeSeries))) \<and>
   (\<forall>r \<in> set (validTimeSeries ts). r \<in> set ts \<and> get r ''LST_mean'' \<noteq> Null) \<and>
   (\<forall>r \<in> set (monthData (validTimeSeries ts) m).
      r \<in> set (validTimeSeries ts) \<and> get r ''LST_mean'' \<noteq> Null) \<and>
   (\<forall>r \<in> set (yearData (validTimeSeries ts) y).
      r \<in> set (validTimeSeries ts) \<and> get r ''LST_mean'' \<noteq> Null) \<and>
   (\<forall>r \<in> set (seasonData (validTimeSeries ts) s).
      r \<in> set (validTimeSeries ts) \<and> get r ''LST_mean'' \<noteq> Null) \<and>
   stats_point ps = stats_point (filter_neq ''LST'' Null ps) \<and>
   yearlyLST_point ps = yearlyLST_point (filter_neq ''LST'' Null ps)"
proof (intro conjI impI ballI)
  assume "analyzeLSTForArea P geometry = Inr report"
  then obtain lstTimeSeries where a: "lstTimeSeries_area P geometry = Inr lstTimeSeries"
    and b: "report = \<lparr>timeSeries = validTimeSeries lstTimeSeries,
             overall = stats_area (validTimeSeries lstTimeSeries),
             monthly = monthlyStats (validTimeSeries lstTimeSeries),
             yearly = yearlyLST_area (validTimeSeries lstTimeSeries),
             seasonal = seasonalStats (validTimeSeries lstTimeSeries)\<rparr>"
    by (auto simp: analyzeLSTForArea_def bindE_eq_Inr Let_def)
  from a show "\<exists>lstTimeSeries. lstTimeSeries_area P geometry = Inr lstTimeSeries \<and>
         timeSeries report = validTimeSeries lstTimeSeries \<and>
         overall report = stats_area (validTimeSeries lstTimeSeries) \<and>
         monthly report = monthlyStats (validTimeSeries lstTimeSeries) \<and>
         yearly report = yearlyLST_area (validTimeSeries lstTimeSeries) \<and>
         seasonal report = seasonalStats (validTimeSeries lstTimeSeries)"
    by (simp add: b)
next
  fix r assume "r \<in> set (validTimeSeries ts)"
  then show "r \<in> set ts" "get r ''LST_mean'' \<noteq> Null"
    by (simp_all add: validTimeSeries_def filter_neq_def)
next
  fix r assume r: "r \<in> set (monthData (validTimeSeries ts) m)"
  then show "r \<in> set (validTimeSeries ts)" using bucket_subsets(1) by blast
  then show "get r ''LST_mean'' \<noteq> Null" by (rule valid_not_Null)
next
  fix r assume r: "r \<in> set (yearData (validTimeSeries ts) y)"
  then show "r \<in> set (validTimeSeries ts)" using bucket_subsets(2) by blast
  then show "get r ''LST_mean'' \<noteq> Null" by (rule valid_not_Null)
next
  fix r assume r: "r \<in> set (seasonData (validTimeSeries ts) s)"
  then show "r \<in> set (validTimeSeries ts)" using bucket_subsets(3) by blast
  then show "get r ''LST_mean'' \<noteq> Null" by (rule valid_not_Null)
next
  show "stats_point ps = stats_point (filter_neq ''LST'' Null ps)"
    by (simp add: stats_point_filtered)
  show "yearlyLST_point ps = yearlyLST_point (filter_neq ''LST'' Null ps)"
    by (simp add: yearlyLST_point_filtered)
qed

lemma analyze_area_sample:
  "\<exists>report. analyzeLSTForArea sample_platform () = Inr report"
  by (simp add: analyzeLSTForArea_def sample_area_series Let_def)

text \<open>
  The area tool on the sample platform, and the sample records of 2014.
\<close>

theorem groupings_read_filtered_records_witness:
  "(\<exists>report lstTimeSeries. analyzeLSTForArea sample_platform () = Inr report \<and>
      lstTimeSeries_area sample_platform () = Inr lstTimeSeries \<and>
      timeSeries report = validTimeSeries lstTimeSeries \<and>
      yearly report = yearlyLST_area (validTimeSeries lstTimeSeries)) \<and>
   length (yearData (validTimeSeries sample_records) (Num 2014)) = 2 \<and>
   list_all (\<lambda>r. get r ''LST_mean'' \<noteq> Null) (yearData (validTimeSeries sample_records) (Num 2014)) \<and>
   stats_point sample_point_records = stats_point (filter_neq ''LST'' Null sample_point_records)"
proof -
  obtain report where r: "analyzeLSTForArea sample_platform () = Inr report"
    using analyze_area_sample by blast
  note t = groupings_read_filtered_records
    [of sample_platform "()" report sample_records "Num 1" "Num 2014" "seasons ! 0"
      sample_point_records]
  from t r have "\<exists>lstTimeSeries. lstTimeSeries_area sample_platform () = Inr lstTimeSeries \<and>
      timeSeries report = validTimeSeries lstTimeSeries \<and>
      yearly report = yearlyLST_area (validTimeSeries lstTimeSeries)"
    by blast
  moreover from t have "list_all (\<lambda>r. get r ''LST_mean'' \<noteq> Null)
      (yearData (validTimeSeries sample_records) (Num 2014))"
    unfolding list_all_iff by blast
  moreover from t have
    "stats_point sample_point_records = stats_point (filter_neq ''LST'' Null sample_point_records)"
    by blast
  moreover have "length (yearData (validTimeSeries sample_records) (Num 2014)) = 2"
    by (simp add: yearData_def validTimeSeries_def filter_eq_def filter_neq_def
        sample_records_def get_def)
  ultimately show ?thesis using r by blast
qed

text \<open>
  The point tool on the sample platform: the series has a record with a null
  value (the fully clouded scene), and the input of the yearly grouping for 2014
  holds it.
\<close>

theorem yearly_input_counterexample:
  "lstTimeSeries_point sample_platform () =
     Inr [[(''date'', Str ''2014-01-01''), (''LST'', Num (- (791382729989449 / 8796093022208))), (''year'', Num 2014),
           (''month'', Num 1), (''day'', Num 1)],
          [(''date'', Str ''2014-01-17''), (''LST'', Null), (''year'', Num 2014),
           (''month'', Num 1), (''day'', Num 17)]] \<and>
   yearData [[(''date'', Str ''2014-01-01''), (''LST'', Num (- (791382729989449 / 8796093022208))), (''year'', Num 2014),
              (''month'', Num 1), (''day'', Num 1)],
             [(''date'', Str ''2014-01-17''), (''LST'', Null), (''year'', Num 2014),
              (''month'', Num 1), (''day'', Num 17)]] (years ! 0) =
     [[(''date'', Str ''2014-01-01''), (''LST'', Num (- (791382729989449 / 8796093022208))), (''year'', Num 2014),
       (''month'', Num 1), (''day'', Num 1)],
      [(''date'', Str ''2014-01-17''), (''LST'', Null), (''year'', Num 2014),
       (''month'', Num 1), (''day'', Num 17)]] \<and>
   get [(''date'', Str ''2014-01-17''), (''LST'', Null), (''year'', Num 2014),
        (''month'', Num 1), (''day'', Num 17)] ''LST'' = Null"
  by (simp add: sample_point_series yearData_def filter_eq_def get_def years_list)

section \<open>Dates of the configured range\<close>

lemma era_in_range:
  fixes z :: int
  assumes "16071 \<le> z" "z < 19723"
  shows "(z + 719468) div 146097 = 5" "(z + 719468) mod 146097 = z - 11017"
proof -
  have e: "z + 719468 = 146097 * 5 + (z - 11017)" by simp
  have b: "0 \<le> z - 11017" "z - 11017 < 146097" using assms by simp_all
  show "(z + 719468) div 146097 = 5" by (rule int_div_pos_eq [OF e b])
  show "(z + 719468) mod 146097 = z - 11017" by (rule int_mod_pos_eq [OF e b])
qed

lemma yoe_doy_in_range:
  fixes doe :: int
  assumes "5054 \<le> doe" "doe < 8706"
    and "yoe = (doe - doe div 1460) div 365"
    and "doy = doe - (365 * yoe + yoe div 4)"
  shows "13 \<le> yoe" "yoe \<le> 23" "0 \<le> doy" "doy \<le> 365"
    "yoe = 13 \<longrightarrow> 306 \<le> doy" "yoe = 23 \<longrightarrow> doy < 306"
  using assms by arith+

lemma month_day_bounds:
  fixes doy :: int
  assumes "0 \<le> doy" "doy \<le> 365"
    and "mp = (5 * doy + 2) div 153"
    and "d = doy - (153 * mp + 2) div 5 + 1"
  shows "0 \<le> mp" "mp \<le> 11" "1 \<le> d" "d \<le> 31" "(10 \<le> mp) = (306 \<le> doy)"
  using assms by arith+

lemma civil_in_range:
  assumes "16071 \<le> z" "z < 19723"
  shows "\<exists>y m d. civil_from_days z = (y, m, d) \<and> 2014 \<le> y \<and> y \<le> 2023 \<and>
           1 \<le> m \<and> m \<le> 12 \<and> 1 \<le> d \<and> d \<le> 31"
proof -
  define doe where "doe = z - 11017"
  define yoe where "yoe = (doe - doe div 1460) div 365"
  define doy where "doy = doe - (365 * yoe + yoe div 4)"
  define mp where "mp = (5 * doy + 2) div 153"
  define d where "d = doy - (153 * mp + 2) div 5 + 1"
  define m where "m = (if mp < 10 then mp + 3 else mp - 9)"
  define y where "y = yoe + 5 * 400 + (if m \<le> 2 then 1 else 0)"
  have doe: "5054 \<le> doe" "doe < 8706" using assms by (simp_all add: doe_def)
  then have small: "doe div 36524 = 0" "doe div 146096 = 0" by simp_all
  note yd = yoe_doy_in_range [OF doe yoe_def doy_def]
  from yd(1,2) have c: "yoe div 100 = 0" by simp
  note md = month_day_bounds [OF yd(3,4) mp_def d_def]
  have "civil_from_days z = (y, m, d)"
    unfolding civil_from_days_def era_in_range [OF assms] Let_def
    using md(1,2)
    by (simp add: doe_def [symmetric] small yoe_def [symmetric] c doy_def [symmetric]
        mp_def [symmetric] d_def [symmetric] m_def y_def)
  moreover have "1 \<le> m" "m \<le> 12" using md(1,2) by (simp_all add: m_def)
  moreover have "(m \<le> 2) = (306 \<le> doy)" using md(1,2,5) by (auto simp: m_def)
  then have "2014 \<le> y" "y \<le> 2023" using yd by (auto simp: y_def)
  ultimately show ?thesis using md(3,4) by blast
qed

lemma day_number_in_range:
  assumes "startDate \<le> t" "t < endDate"
  shows "16071 \<le> t div millis_per_day" "t div millis_per_day < 19723"
  using assms by (simp_all add: startDate_def endDate_def millis_per_day_def)

lemma dates_in_range:
  assumes "startDate \<le> t" "t < endDate"
  shows "2014 \<le> date_year t" "date_year t \<le> 2023" "1 \<le> date_month t" "date_month t \<le> 12"
    "1 \<le> date_day t" "date_day t \<le> 31"
  using civil_in_range [OF day_number_in_range [OF assms]]
  by (auto simp: date_year_def date_month_def date_day_def)

lemma month_in_months:
  assumes "1 \<le> m" "m \<le> 12"
  shows "Num (real_of_int m) \<in> set months"
proof -
  from assms have "m = 1 \<or> m = 2 \<or> m = 3 \<or> m = 4 \<or> m = 5 \<or> m = 6 \<or> m = 7 \<or> m = 8 \<or>
      m = 9 \<or> m = 10 \<or> m = 11 \<or> m = 12" by arith
  then show ?thesis unfolding months_list by (elim disjE) simp_all
qed

lemma year_in_years:
  assumes "2014 \<le> y" "y \<le> 2023"
  shows "Num (real_of_int y) \<in> set years"
proof -
  from assms have "y = 2014 \<or> y = 2015 \<or> y = 2016 \<or> y = 2017 \<or> y = 2018 \<or> y = 2019 \<or>
      y = 2020 \<or> y = 2021 \<or> y = 2022 \<or> y = 2023" by arith
  then show ?thesis unfolding years_list by (elim disjE) simp_all
qed

lemma allLandsat_in_range:
  assumes "allLandsat P g s e thr = Inr C" and "c \<in> set C"
  shows "s \<le> time_start c \<and> time_start c < e"
proof -
  from assms(1) obtain A B where
    A: "landsat P ''LANDSAT/LC08/C02/T1_L2'' g s e thr = Inr A"
    and B: "landsat P ''LANDSAT/LC09/C02/T1_L2'' g s e thr = Inr B"
    and C: "C = A @ B"
    by (auto simp: allLandsat_def bindE_eq_Inr merge_def)
  from assms(2) C have "c \<in> set A \<or> c \<in> set B" by simp
  then obtain src where src: "bindE (maskClouds src) calculateLST = Inr c"
    "s \<le> time_start src \<and> time_start src < e"
  proof
    assume "c \<in> set A"
    from list_all2_member_right [OF A [unfolded landsat_Inr] this] that show ?thesis by auto
  next
    assume "c \<in> set B"
    from list_all2_member_right [OF B [unfolded landsat_Inr] this] that show ?thesis by auto
  qed
  with processed_metadata [OF src(1)] show ?thesis by simp
qed

lemma area_series_buckets:
  assumes "lstTimeSeries_area P geometry = Inr ts" and "r \<in> set ts"
  shows "get r ''month'' \<in> set months \<and> get r ''year'' \<in> set years"
proof -
  from assms(1) obtain C where C: "allLandsat_area P geometry = Inr C"
    and ts: "mapE (extractLST_area P geometry) C = Inr ts"
    by (auto simp: lstTimeSeries_area_def bindE_eq_Inr)
  from ts assms(2) obtain c where c: "c \<in> set C" "extractLST_area P geometry c = Inr r"
    unfolding mapE_Inr by (blast dest: list_all2_member_right)
  from C c(1) have t: "startDate \<le> time_start c" "time_start c < endDate"
    unfolding allLandsat_area_def by (blast dest: allLandsat_in_range)+
  from C c(1) obtain lst where lst: "select c ''LST'' = Inr (''LST'', lst)"
    unfolding allLandsat_area_def by (blast dest: allLandsat_has_LST)
  note d = dates_in_range [OF t]
  from c(2) [unfolded extractLST_area_record [OF lst]]
  have "get r ''month'' = Num (real_of_int (date_month (time_start c)))"
    "get r ''year'' = Num (real_of_int (date_year (time_start c)))"
    by (auto simp: get_def)
  with month_in_months [OF d(3,4)] year_in_years [OF d(1,2)] show ?thesis by simp
qed

lemma digit_is_digit: "digit d \<in> set ''0123456789''"
  unfolding digit_def by (rule nth_mem) simp

lemma digits_chars: "set (digits n) \<subseteq> set ''0123456789''"
proof (induction n rule: digits.induct)
  case (1 n)
  show ?case
  proof (cases "n < 10")
    case True
    then have "digits n = [digit n]" by (subst digits.simps) (simp del: digits.simps)
    then show ?thesis using digit_is_digit [of n] by (simp del: digits.simps)
  next
    case False
    then have "digits n = digits (n div 10) @ [digit n]"
      by (subst digits.simps) (simp del: digits.simps)
    then show ?thesis using 1 [OF False] digit_is_digit [of n] by (simp del: digits.simps)
  qed
qed

lemma length_digits_1: "n < 10 \<Longrightarrow> length (digits n) = 1"
  by (subst digits.simps) (simp del: digits.simps)

lemma length_digits_2: "10 \<le> n \<Longrightarrow> n < 100 \<Longrightarrow> length (digits n) = 2"
proof -
  assume a: "10 \<le> n" "n < 100"
  then have "n div 10 < 10" by arith
  then have "length (digits (n div 10)) = 1" by (rule length_digits_1)
  with a show ?thesis by (subst digits.simps) (simp del: digits.simps)
qed

lemma length_digits_3: "100 \<le> n \<Longrightarrow> n < 1000 \<Longrightarrow> length (digits n) = 3"
proof -
  assume a: "100 \<le> n" "n < 1000"
  then have "10 \<le> n div 10" "n div 10 < 100" by arith+
  then have "length (digits (n div 10)) = 2" by (rule length_digits_2)
  with a show ?thesis by (subst digits.simps) (simp del: digits.simps)
qed

lemma length_digits_4: "1000 \<le> n \<Longrightarrow> n < 10000 \<Longrightarrow> length (digits n) = 4"
proof -
  assume a: "1000 \<le> n" "n < 10000"
  then have "100 \<le> n div 10" "n div 10 < 1000" by arith+
  then have "length (digits (n div 10)) = 3" by (rule length_digits_3)
  with a show ?thesis by (subst digits.simps) (simp del: digits.simps)
qed

lemma pad_chars: "set (pad w n) \<subseteq> set ''0123456789''"
proof -
  have "set (replicate k (CHR ''0'')) \<subseteq> set ''0123456789''" for k
    by (induction k) simp_all
  with digits_chars [of "nat n"] show ?thesis
    by (simp add: pad_def Let_def del: digits.simps)
qed

lemma pad_2:
  assumes "1 \<le> m" "m \<le> 31"
  shows "\<exists>a b. pad 2 m = [a, b] \<and> a \<in> set ''0123456789'' \<and> b \<in> set ''0123456789''"
proof -
  have "length (digits (nat m)) = 1 \<or> length (digits (nat m)) = 2"
  proof (cases "m < 10")
    case True
    then show ?thesis by (simp add: length_digits_1 del: digits.simps)
  next
    case False
    with assms show ?thesis by (simp add: length_digits_2 del: digits.simps)
  qed
  then have "length (pad 2 m) = 2"
    by (auto simp: pad_def Let_def simp del: digits.simps)
  then obtain a b where "pad 2 m = [a, b]"
    by (auto simp: length_Suc_conv numeral_2_eq_2)
  with pad_chars [of 2 m] show ?thesis by simp
qed

lemma pad_4:
  assumes "2014 \<le> y" "y \<le> 2023"
  shows "\<exists>a b c d. pad 4 y = [a, b, c, d] \<and> a \<in> set ''0123456789'' \<and>
     b \<in> set ''0123456789'' \<and> c \<in> set ''0123456789'' \<and> d \<in> set ''0123456789''"
proof -
  from assms have "length (digits (nat y)) = 4"
    by (intro length_digits_4) simp_all
  then have "length (pad 4 y) = 4"
    by (simp add: pad_def Let_def del: digits.simps)
  then obtain a b c d where "pad 4 y = [a, b, c, d]"
    by (auto simp: length_Suc_conv eval_nat_numeral)
  with pad_chars [of 4 y] show ?thesis by simp
qed

lemma format_date_iso:
  assumes "startDate \<le> t" "t < endDate"
  shows "iso_date (format_date t)"
proof -
  note d = dates_in_range [OF assms]
  from pad_4 [OF d(1,2)] obtain y1 y2 y3 y4 where
    y: "pad 4 (date_year t) = [y1, y2, y3, y4]" "y1 \<in> set ''0123456789''"
      "y2 \<in> set ''0123456789''" "y3 \<in> set ''0123456789''" "y4 \<in> set ''0123456789''"
    by blast
  from d(4) have "date_month t \<le> 31" by simp
  from pad_2 [OF d(3) this] obtain m1 m2 where
    m: "pad 2 (date_month t) = [m1, m2]" "m1 \<in> set ''0123456789''" "m2 \<in> set ''0123456789''"
    by blast
  from pad_2 [OF d(5,6)] obtain d1 d2 where
    dd: "pad 2 (date_day t) = [d1, d2]" "d1 \<in> set ''0123456789''" "d2 \<in> set ''0123456789''"
    by blast
  have "format_date t = [y1, y2, y3, y4, CHR ''-'', m1, m2, CHR ''-'', d1, d2]"
    by (simp add: format_date_def y(1) m(1) dd(1))
  with y(2-) m(2-) dd(2-) show ?thesis
    by (simp add: iso_date_def)
qed

section \<open>The area tool: buckets of its own report\<close>

text \<open>
  Whenever the area tool returns a report, the records of its series have a
  month among 1 to 12 and a year among 2014 to 2023, because the collection was
  filtered to the configured dates. So in every report the counts of the 12
  monthly rows, of the 10 yearly rows and of the 4 seasonal rows are the sizes of
  their buckets, and each of the three groupings adds up to the number of
  records of the series.
\<close>

theorem area_report_bucket_counts:
  assumes "analyzeLSTForArea P geometry = Inr report"
  shows "length (monthly report) = 12 \<and> length (yearly report) = 10 \<and>
         length (seasonal report) = 4 \<and>
         map (\<lambda>row. get row ''count'') (monthly report) =
           map (\<lambda>m. Num (real (length (monthData (timeSeries report) m)))) months \<and>
         (\<Sum>m\<leftarrow>months. length (monthData (timeSeries report) m)) = length (timeSeries report) \<and>
         map (\<lambda>row. get row ''count'') (yearly report) =
           map (\<lambda>y. Num (real (length (yearData (timeSeries report) y)))) years \<and>
         (\<Sum>y\<leftarrow>years. length (yearData (timeSeries report) y)) = length (timeSeries report) \<and>
         map (\<lambda>row. get row ''Count'') (seasonal report) =
           map (\<lambda>s. Num (real (length (seasonData (timeSeries report) s)))) seasons \<and>
         (\<Sum>s\<leftarrow>seasons. length (seasonData (timeSeries report) s)) = length (timeSeries report)"
proof -
  from assms obtain ts where ts: "lstTimeSeries_area P geometry = Inr ts"
    and r: "report = \<lparr>timeSeries = validTimeSeries ts,
             overall = stats_area (validTimeSeries ts),
             monthly = monthlyStats (validTimeSeries ts),
             yearly = yearlyLST_area (validTimeSeries ts),
             seasonal = seasonalStats (validTimeSeries ts)\<rparr>"
    by (auto simp: analyzeLSTForArea_def bindE_eq_Inr Let_def)
  have "\<forall>r \<in> set (validTimeSeries ts). get r ''LST_mean'' \<noteq> Null"
    by (simp add: valid_not_Null)
  moreover have "\<forall>r \<in> set (validTimeSeries ts).
      get r ''month'' \<in> set months \<and> get r ''year'' \<in> set years"
    using area_series_buckets [OF ts] by (simp add: validTimeSeries_def filter_neq_def)
  ultimately have p:
    "length months = 12" "length years = 10" "length seasons = 4"
    "map (\<lambda>row. get row ''count'') (monthlyStats (validTimeSeries ts)) =
       map (\<lambda>m. Num (real (length (monthData (validTimeSeries ts) m)))) months"
    "(\<Sum>m\<leftarrow>months. length (monthData (validTimeSeries ts) m)) = length (validTimeSeries ts)"
    "map (\<lambda>row. get row ''count'') (yearlyLST_area (validTimeSeries ts)) =
       map (\<lambda>y. Num (real (length (yearData (validTimeSeries ts) y)))) years"
    "(\<Sum>y\<leftarrow>years. length (yearData (validTimeSeries ts) y)) = length (validTimeSeries ts)"
    "map (\<lambda>row. get row ''Count'') (seasonalStats (validTimeSeries ts)) =
       map (\<lambda>s. Num (real (length (seasonData (validTimeSeries ts) s)))) seasons"
    "(\<Sum>s\<leftarrow>seasons. length (seasonData (validTimeSeries ts) s)) = length (validTimeSeries ts)"
    using bucket_partition [of "validTimeSeries ts"] by blast+
  have l: "length (monthlyStats (validTimeSeries ts)) = length months"
    "length (yearlyLST_area (validTimeSeries ts)) = length years"
    "length (seasonalStats (validTimeSeries ts)) = length seasons"
    by (simp_all add: monthlyStats_def yearlyLST_area_def seasonalStats_def)
  show ?thesis
    unfolding r by (simp only: area_report.simps p l)
qed

text \<open>The report of the area tool on the sample platform.\<close>

theorem area_report_bucket_counts_witness:
  "\<exists>report. analyzeLSTForArea sample_platform () = Inr report \<and>
     length (monthly report) = 12 \<and>
     (\<Sum>m\<leftarrow>months. length (monthData (timeSeries report) m)) = length (timeSeries report)"
proof -
  obtain report where r: "analyzeLSTForArea sample_platform () = Inr report"
    using analyze_area_sample by blast
  from area_report_bucket_counts [OF r] r show ?thesis by blast
qed

section \<open>The extractor: fields of a record\<close>

lemma select_name: "select img n = Inr nb \<Longrightarrow> fst nb = n"
  by (auto simp: select_def split: option.splits)

text \<open>
  Claim C8, as amended. A record of the area tool has exactly the fields
  \<open>date\<close>, \<open>LST_mean\<close>, \<open>LST_stdDev\<close>, \<open>LST_count\<close>, \<open>year\<close>,
  \<open>month\<close>, \<open>day\<close> and \<open>doy\<close>; a record of the point tool has exactly
  \<open>date\<close>, \<open>LST\<close>, \<open>year\<close>, \<open>month\<close> and \<open>day\<close>. In both, the date
  is the acquisition day written as year, month and day with dashes (for a day
  of the configured range, as every image of the built collection has it, four
  digits, a dash, two digits, a dash, two digits), the aggregate values are
  numbers or null, and the calendar fields are those of the acquisition day.
\<close>

theorem extractLST_fields:
  "(extractLST_area P geometry img = Inr r \<longrightarrow>
      map fst r = [''date'', ''LST_mean'', ''LST_stdDev'', ''LST_count'', ''year'', ''month'',
                   ''day'', ''doy''] \<and>
      get r ''date'' = Str (format_date (time_start img)) \<and>
      (startDate \<le> time_start img \<and> time_start img < endDate \<longrightarrow>
         iso_date (format_date (time_start img))) \<and>
      (get r ''LST_mean'' = Null \<or> (\<exists>x. get r ''LST_mean'' = Num x)) \<and>
      (get r ''LST_stdDev'' = Null \<or> (\<exists>x. get r ''LST_stdDev'' = Num x)) \<and>
      (\<exists>n::nat. get r ''LST_count'' = Num (real n)) \<and>
      get r ''year'' = Num (real_of_int (date_year (time_start img))) \<and>
      get r ''month'' = Num (real_of_int (date_month (time_start img))) \<and>
      get r ''day'' = Num (real_of_int (date_day (time_start img))) \<and>
      get r ''doy'' = Num (real_of_int (date_doy (time_start img)))) \<and>
   (extractLST_point P buf img = Inr q \<longrightarrow>
      map fst q = [''date'', ''LST'', ''year'', ''month'', ''day''] \<and>
      get q ''date'' = Str (format_date (time_start img)) \<and>
      (startDate \<le> time_start img \<and> time_start img < endDate \<longrightarrow>
         iso_date (format_date (time_start img))) \<and>
      (get q ''LST'' = Null \<or> (\<exists>x. get q ''LST'' = Num x)) \<and>
      get q ''year'' = Num (real_of_int (date_year (time_start img))) \<and>
      get q ''month'' = Num (real_of_int (date_month (time_start img))) \<and>
      get q ''day'' = Num (real_of_int (date_day (time_start img))))"
proof (intro conjI impI)
  assume a: "extractLST_area P geometry img = Inr r"
  then obtain nb where "select img ''LST'' = Inr nb"
    by (auto simp: extractLST_area_def bindE_eq_Inr)
  with select_name [OF this] obtain lst where lst: "select img ''LST'' = Inr (''LST'', lst)"
    by (cases nb) simp
  have nn: "\<And>o'. val_of o' = Null \<or> (\<exists>x. val_of o' = Num x)"
    by (case_tac o') simp_all
  note r = a [unfolded extractLST_area_record [OF lst], simplified]
  show "map fst r = [''date'', ''LST_mean'', ''LST_stdDev'', ''LST_count'', ''year'', ''month'',
                   ''day'', ''doy'']"
    "get r ''date'' = Str (format_date (time_start img))"
    "get r ''LST_mean'' = Null \<or> (\<exists>x. get r ''LST_mean'' = Num x)"
    "get r ''LST_stdDev'' = Null \<or> (\<exists>x. get r ''LST_stdDev'' = Num x)"
    "\<exists>n::nat. get r ''LST_count'' = Num (real n)"
    "get r ''year'' = Num (real_of_int (date_year (time_start img)))"
    "get r ''month'' = Num (real_of_int (date_month (time_start img)))"
    "get r ''day'' = Num (real_of_int (date_day (time_start img)))"
    "get r ''doy'' = Num (real_of_int (date_doy (time_start img)))"
    unfolding r [symmetric] by (simp_all add: get_def nn)
  show "iso_date (format_date (time_start img))"
    if "startDate \<le> time_start img \<and> time_start img < endDate"
    using that by (simp add: format_date_iso)
next
  assume a: "extractLST_point P buf img = Inr q"
  then obtain nb where "select img ''LST'' = Inr nb"
    by (auto simp: extractLST_point_def bindE_eq_Inr)
  with select_name [OF this] obtain lst where lst: "select img ''LST'' = Inr (''LST'', lst)"
    by (cases nb) simp
  have nn: "\<And>o'. val_of o' = Null \<or> (\<exists>x. val_of o' = Num x)"
    by (case_tac o') simp_all
  note q = a [unfolded extractLST_point_record [OF lst], simplified]
  show "map fst q = [''date'', ''LST'', ''year'', ''month'', ''day'']"
    "get q ''date'' = Str (format_date (time_start img))"
    "get q ''LST'' = Null \<or> (\<exists>x. get q ''LST'' = Num x)"
    "get q ''year'' = Num (real_of_int (date_year (time_start img)))"
    "get q ''month'' = Num (real_of_int (date_month (time_start img)))"
    "get q ''day'' = Num (real_of_int (date_day (time_start img)))"
    unfolding q [symmetric] by (simp_all add: get_def nn)
  show "iso_date (format_date (time_start img))"
    if "startDate \<le> time_start img \<and> time_start img < endDate"
    using that by (simp add: format_date_iso)
qed

lemma derived_scene_records:
  "extractLST_area sample_platform () derived_scene =
     Inr [(''date'', Str ''2014-01-01''), (''LST_mean'', Num 25), (''LST_stdDev'', Num 1),
          (''LST_count'', Num 2), (''year'', Num 2014), (''month'', Num 1), (''day'', Num 1),
          (''doy'', Num 0)]"
  "extractLST_point sample_platform () derived_scene =
     Inr [(''date'', Str ''2014-01-01''), (''LST'', Num 25), (''year'', Num 2014),
          (''month'', Num 1), (''day'', Num 1)]"
  by (simp_all add: extractLST_area_def extractLST_point_def select_def derived_scene_def
      reduceRegion_mean_stdDev_count_def reduceRegion_mean_def region_values_def
      sample_platform_def List.map_filter_def get_def mean_reducer_def stdDev_reducer_def
      sample_dates)

text \<open>An image with an \<open>LST\<close> band, taken on 2014-01-01.\<close>

theorem extractLST_fields_witness:
  "(\<exists>r. extractLST_area sample_platform () derived_scene = Inr r \<and>
      map fst r = [''date'', ''LST_mean'', ''LST_stdDev'', ''LST_count'', ''year'', ''month'',
                   ''day'', ''doy''] \<and>
      get r ''date'' = Str ''2014-01-01'') \<and>
   (\<exists>q. extractLST_point sample_platform () derived_scene = Inr q \<and>
      map fst q = [''date'', ''LST'', ''year'', ''month'', ''day''] \<and>
      get q ''date'' = Str ''2014-01-01'') \<and>
   iso_date ''2014-01-01''"
proof -
  have d: "format_date (time_start derived_scene) = ''2014-01-01''"
    by (simp add: derived_scene_def sample_dates)
  have t: "startDate \<le> time_start derived_scene \<and> time_start derived_scene < endDate"
    by (simp add: derived_scene_def startDate_def endDate_def millis_per_day_def)
  from extractLST_fields [of sample_platform "()" derived_scene _ "()",
      THEN conjunct1, rule_format, OF derived_scene_records(1)]
    extractLST_fields [of sample_platform "()" derived_scene _ "()",
      THEN conjunct2, rule_format, OF derived_scene_records(2)]
    derived_scene_records d t
  show ?thesis by simp
qed

text \<open>
  The records of the point tool on the sample platform have no standard
  deviation, no pixel count and no day of the year.
\<close>

theorem point_record_fields_counterexample:
  "lstTimeSeries_point sample_platform () =
     Inr [[(''date'', Str ''2014-01-01''), (''LST'', Num (- (791382729989449 / 8796093022208))), (''year'', Num 2014),
           (''month'', Num 1), (''day'', Num 1)],
          [(''date'', Str ''2014-01-17''), (''LST'', Null), (''year'', Num 2014),
           (''month'', Num 1), (''day'', Num 17)]] \<and>
   ''LST_stdDev'' \<notin> set (map fst [(''date'', Str ''2014-01-01''), (''LST'', Num (- (791382729989449 / 8796093022208))),
      (''year'', Num 2014), (''month'', Num 1), (''day'', Num 1)]) \<and>
   ''LST_count'' \<notin> set (map fst [(''date'', Str ''2014-01-01''), (''LST'', Num (- (791382729989449 / 8796093022208))),
      (''year'', Num 2014), (''month'', Num 1), (''day'', Num 1)]) \<and>
   ''doy'' \<notin> set (map fst [(''date'', Str ''2014-01-01''), (''LST'', Num (- (791382729989449 / 8796093022208))),
      (''year'', Num 2014), (''month'', Num 1), (''day'', Num 1)])"
  by (simp add: sample_point_series)

end
